theory Spec2Isabelle
  imports Complex_Main "HOL-Library.Char_ord" "HOL-Library.List_Lexorder" "HOL-Library.Log_Nat"
begin

section \<open>Values that cross the HTTP and engine boundaries\<close>

text \<open>
  Request bodies and engine payloads reach \<open>index.ts\<close> as parsed JSON of type \<open>unknown\<close>.
  A JavaScript number is an IEEE 754 double: a finite one is the rational it denotes, the
  three non-finite ones are kept apart because the code tests \<open>Number.isFinite\<close>.
\<close>

datatype number = Finite rat | NaN | PosInfinity | NegInfinity

text \<open>
  Comparison, \<open>Math.max\<close> and \<open>Math.trunc\<close> of doubles are exact; \<open>+\<close> and \<open>-\<close> are
  not. \<open>roundDouble\<close> is the rounding that both apply to the exact result: to the nearest
  double, ties to the even significand, with 53 significant bits, the least exponent
  \<open>-1022\<close> (below it the spacing stays \<open>pow2 (-1074)\<close>) and overflow to infinity when the
  rounded value reaches \<open>pow2 1024\<close>. The sign of zero is not modelled: no route
  distinguishes it.
\<close>

definition pow2 :: "int \<Rightarrow> rat" where
  "pow2 e = (if e \<ge> 0 then 2 ^ nat e else 1 / 2 ^ nat (- e))"

text \<open>\<open>floorLog2 x\<close> is the \<open>e\<close> with \<open>pow2 e \<le> x < pow2 (e + 1)\<close>, for \<open>x > 0\<close>.\<close>

definition floorLog2 :: "rat \<Rightarrow> int" where
  "floorLog2 x =
     (let (a, b) = quotient_of x; l = bitlen a - bitlen b
      in if pow2 l \<le> x then l else l - 1)"

definition roundHalfEven :: "rat \<Rightarrow> int" where
  "roundHalfEven y =
     (let n = \<lfloor>y\<rfloor>; r = y - of_int n
      in if r < 1 / 2 then n else if r > 1 / 2 then n + 1 else if even n then n else n + 1)"

definition roundDouble :: "rat \<Rightarrow> number" where
  "roundDouble x =
     (if x = 0 then Finite 0
      else
        let m = \<bar>x\<bar>;
            e = max (floorLog2 m) (- 1022);
            q = pow2 (e - 52);
            n = roundHalfEven (m / q)
        in if e > 1023 \<or> (e = 1023 \<and> n \<ge> 9007199254740992)
           then (if x > 0 then PosInfinity else NegInfinity)
           else Finite (if x > 0 then of_int n * q else - (of_int n * q)))"

fun jsAdd :: "number \<Rightarrow> number \<Rightarrow> number" where
  "jsAdd (Finite a) (Finite b) = roundDouble (a + b)"
| "jsAdd NaN _ = NaN"
| "jsAdd _ NaN = NaN"
| "jsAdd PosInfinity NegInfinity = NaN"
| "jsAdd NegInfinity PosInfinity = NaN"
| "jsAdd PosInfinity _ = PosInfinity"
| "jsAdd _ PosInfinity = PosInfinity"
| "jsAdd NegInfinity _ = NegInfinity"
| "jsAdd _ NegInfinity = NegInfinity"

fun jsNegate :: "number \<Rightarrow> number" where
  "jsNegate (Finite a) = Finite (- a)"
| "jsNegate NaN = NaN"
| "jsNegate PosInfinity = NegInfinity"
| "jsNegate NegInfinity = PosInfinity"

definition jsSub :: "number \<Rightarrow> number \<Rightarrow> number" where
  "jsSub a b = jsAdd a (jsNegate b)"

text \<open>\<open>a > b\<close>; a comparison with \<open>NaN\<close> is false.\<close>

fun jsGreater :: "number \<Rightarrow> number \<Rightarrow> bool" where
  "jsGreater (Finite a) (Finite b) = (a > b)"
| "jsGreater NaN _ = False"
| "jsGreater _ NaN = False"
| "jsGreater PosInfinity PosInfinity = False"
| "jsGreater PosInfinity _ = True"
| "jsGreater _ PosInfinity = False"
| "jsGreater NegInfinity _ = False"
| "jsGreater _ NegInfinity = True"

text \<open>\<open>Math.max(0, x)\<close>\<close>

fun jsMax0 :: "number \<Rightarrow> number" where
  "jsMax0 (Finite a) = Finite (max 0 a)"
| "jsMax0 NaN = NaN"
| "jsMax0 PosInfinity = PosInfinity"
| "jsMax0 NegInfinity = Finite 0"

datatype json =
    JNull
  | JBool bool
  | JNum number
  | JStr string
  | JArr "json list"
  | JObj "(string \<times> json) list"

text \<open>
  \<open>getProp v k\<close> is the property read \<open>v?.k\<close> for the field names the server reads
  (\<open>None\<close> is JavaScript's \<open>undefined\<close>). A read without \<open>?.\<close> on \<open>null\<close> throws, and
  is written out as a \<open>TypeError\<close> branch at each place where the source has one.
\<close>

fun getProp :: "json \<Rightarrow> string \<Rightarrow> json option" where
  "getProp (JObj kvs) k = map_of kvs k"
| "getProp _ k = None"

text \<open>\<open>a ?? b\<close> on a JSON value: \<open>null\<close> and \<open>undefined\<close> fall through.\<close>

fun nullish :: "json option \<Rightarrow> bool" where
  "nullish None = True"
| "nullish (Some JNull) = True"
| "nullish (Some _) = False"

fun truthy :: "json option \<Rightarrow> bool" where
  "truthy None = False"
| "truthy (Some JNull) = False"
| "truthy (Some (JBool b)) = b"
| "truthy (Some (JNum (Finite r))) = (r \<noteq> 0)"
| "truthy (Some (JNum NaN)) = False"
| "truthy (Some (JNum _)) = True"
| "truthy (Some (JStr s)) = (s \<noteq> [])"
| "truthy (Some (JArr _)) = True"
| "truthy (Some (JObj _)) = True"

fun asRecord :: "json option \<Rightarrow> json option" where
  "asRecord (Some (JObj kvs)) = Some (JObj kvs)"
| "asRecord (Some (JArr xs)) = Some (JArr xs)"
| "asRecord _ = None"

fun readStringField :: "json option \<Rightarrow> string \<Rightarrow> string option" where
  "readStringField None field = None"
| "readStringField (Some container) field =
     (case getProp container field of Some (JStr s) \<Rightarrow> Some s | _ \<Rightarrow> None)"

text \<open>\<open>typeof v === 'string'\<close>, \<open>typeof v === 'number' && Number.isFinite(v)\<close>, \<open>Array.isArray\<close>.\<close>

fun stringOf :: "json option \<Rightarrow> string option" where
  "stringOf (Some (JStr s)) = Some s"
| "stringOf _ = None"

fun finiteNumber :: "json option \<Rightarrow> rat option" where
  "finiteNumber (Some (JNum (Finite r))) = Some r"
| "finiteNumber _ = None"

fun arrayOrEmpty :: "json option \<Rightarrow> json list" where
  "arrayOrEmpty (Some (JArr xs)) = xs"
| "arrayOrEmpty _ = []"

text \<open>
  \<open>String.prototype.trim\<close> on the characters a \<open>string\<close> of this model can hold: tab, line
  feed, vertical tab, form feed, carriage return, space and the no-break space.
\<close>

definition isWhitespace :: "char \<Rightarrow> bool" where
  "isWhitespace c \<longleftrightarrow> c \<in> set [CHR 0x09, CHR 0x0A, CHR 0x0B, CHR 0x0C, CHR 0x0D, CHR 0x20, CHR 0xA0]"

definition trim :: "string \<Rightarrow> string" where
  "trim s = rev (dropWhile isWhitespace (rev (dropWhile isWhitespace s)))"

text \<open>\<open>typeof v === 'string' && v.trim().length > 0 ? v.trim() : fallback\<close>\<close>

definition trimmedOr :: "json option \<Rightarrow> string \<Rightarrow> string" where
  "trimmedOr v fallback =
     (case stringOf v of
        Some s \<Rightarrow> if length (trim s) > 0 then trim s else fallback
      | None \<Rightarrow> fallback)"

text \<open>\<open>Math.trunc\<close> on a finite number.\<close>

definition trunc :: "rat \<Rightarrow> int" where
  "trunc r = (if r \<ge> 0 then \<lfloor>r\<rfloor> else \<lceil>r\<rceil>)"

section \<open>Records of \<open>types/models.ts\<close> and errors\<close>

text \<open>
  A goal keeps its weekly hours in the field \<open>hoursPerWeek\<close>, the only name that
  \<open>types/models.ts\<close> and \<open>goalRepository.ts\<close> know. The numbers of stored records are
  taken to be finite.
\<close>

datatype GoalStatus = active | completed | archived | paused

record UserRecord =
  u_id :: string
  u_email :: string
  u_name :: string
  u_timezone :: string
  availableHoursPerWeek :: rat

record GoalRecord =
  g_id :: string
  g_userId :: string
  g_title :: string
  g_description :: "string option"
  g_status :: GoalStatus
  g_color :: "rat option"
  hoursPerWeek :: rat
  g_priority :: int
  g_createdAt :: string
  g_updatedAt :: string

datatype MilestoneStatus = blocked | in_progress | finished

record MilestoneRecord =
  m_id :: string
  m_goalId :: string
  m_parentMilestoneId :: "string option"
  m_title :: string
  m_description :: "string option"
  m_status :: MilestoneStatus
  m_createdAt :: string
  m_updatedAt :: string

record TaskRecord =
  t_id :: string
  t_goalId :: string
  t_milestoneId :: string
  t_userId :: string
  t_title :: string
  t_description :: "string option"
  t_date :: string
  estimatedHours :: rat
  t_done :: bool
  t_createdAt :: string
  t_updatedAt :: string

text \<open>
  An entry of \<open>conflictingGoals\<close>; \<open>weeklyHours\<close> is \<open>None\<close> when the value written there is
  \<open>undefined\<close>.
\<close>

record GoalSummary =
  goalId :: string
  gs_title :: string
  weeklyHours :: "number option"

text \<open>
  \<open>ApiError(status, message, details)\<close>. A template literal that interpolates a number is
  kept as its fragments, so that no number formatting has to be modelled. \<open>TypeError\<close> is the
  runtime error of a property read on \<open>null\<close>, \<open>FirestoreError\<close> the error with which the
  Firestore client refuses a document; neither is an \<open>ApiError\<close>, and the last middleware
  answers both with 500.
\<close>

datatype fragment = Lit string | Num number

datatype details =
    CapacityDetails (d_availableHoursPerWeek: rat) (d_requiredHoursPerWeek: number)
      (d_conflictingGoals: "GoalSummary list")
  | TaskConflictDetails (conflictingTaskIds: "string list")

datatype error =
    ApiError (status: nat) (message: "fragment list") (details: "details option")
  | TypeError
  | FirestoreError

section \<open>The record store and what lies outside the server\<close>

record UpcomingTask =
  ut_id :: string
  ut_title :: string
  ut_goalId :: string
  ut_milestoneId :: string
  ut_date :: string
  ut_estimatedHours :: rat
  ut_done :: bool

record UserContextSnapshot =
  availableHoursLeft :: number
  upcomingTasks :: "UpcomingTask list"

text \<open>A session's \<open>context\<close> is the snapshot built locally or whatever the engine sent back.\<close>

datatype sessionContext = Snapshot UserContextSnapshot | EngineContext json

record SessionStateRecord =
  s_id :: string
  s_userId :: string
  s_chatId :: string
  s_state :: string
  s_iteration :: int
  s_goalPreviewId :: "string option"
  sessionActive :: bool
  s_context :: sessionContext
  s_createdAt :: string
  s_updatedAt :: string

datatype sender = user | agent

record ChatMessageRecord =
  c_sessionId :: string
  c_chatId :: string
  c_sender :: sender
  c_message :: string
  c_createdAt :: string

record GoalPreviewRecord =
  gp_id :: string
  gp_userId :: string
  gp_sessionId :: string
  gp_data :: json

datatype AgentMessagePart =
    TextPart string
  | GoalPreviewContext json
  | TimeContext number
  | TaskContext "UpcomingTask list"

record AgentInvocationPayload =
  app_name :: string
  user_id :: string
  session_id :: string
  parts :: "AgentMessagePart list"

text \<open>
  \<open>AgentServiceResponse\<close> of \<open>types/models.ts\<close>; a field is optional here wherever the
  message handler reads it with \<open>?.\<close> or \<open>??\<close>.
\<close>

record AgentAction =
  a_type :: string
  a_payload :: "(string \<times> json) list option"

record AgentState =
  as_state :: "string option"
  as_iteration :: "int option"
  as_sessionActive :: "bool option"
  as_goalPreviewId :: "string option"

record AgentServiceResponse =
  reply :: string
  action :: "AgentAction option"
  state :: "AgentState option"
  r_context :: "json option"

text \<open>
  The order in which one request touches the transcript and the reasoning engine is kept in
  \<open>trace\<close>, a log that the server itself does not store.
\<close>

datatype effect =
    ChatAppended sender string
  | RemoteSessionInit string string
  | AgentInvoked AgentInvocationPayload

record store =
  users :: "UserRecord list"
  goals :: "GoalRecord list"
  milestones :: "MilestoneRecord list"
  tasks :: "TaskRecord list"
  sessions :: "SessionStateRecord list"
  chat :: "ChatMessageRecord list"
  goalPreviews :: "GoalPreviewRecord list"
  nextDoc :: nat
  trace :: "effect list"

text \<open>
  What the server calls but does not contain: the clock (\<open>new Date().toISOString()\<close>), the
  date parser (\<open>new Date(value)\<close>, \<open>None\<close> for an invalid date, else its \<open>toISOString()\<close>),
  the host's collation (\<open>a.localeCompare(b)\<close>: negative, zero or positive), the
  environment, and the two calls to the reasoning engine of \<open>agentService.ts\<close>, each of
  which either throws an \<open>ApiError\<close> or returns.
\<close>

record runtime =
  now :: string
  parseDate :: "string \<Rightarrow> string option"
  localeCompare :: "string \<Rightarrow> string \<Rightarrow> int"
  AGENT_APP_NAME :: "string option"
  initRemoteSession :: "string \<Rightarrow> string \<Rightarrow> error option"
  invokeAgentService :: "AgentInvocationPayload \<Rightarrow> error + AgentServiceResponse"

text \<open>
  \<open>collection.doc()\<close> allocates an identifier that no document has yet; the model numbers
  the allocations.
\<close>

definition autoId :: "nat \<Rightarrow> string" where
  "autoId n = ''doc-'' @ replicate n (CHR ''i'')"

section \<open>\<open>Array.prototype.sort\<close> with a comparator\<close>

text \<open>
  The sort of the language is stable. For a comparator that orders consistently a list has
  exactly one arrangement that is sorted and keeps the listing order of the elements that
  compare equal; insertion from the right computes it. For any other comparator the
  language leaves the result to the implementation.
\<close>

fun insertSorted :: "('a \<Rightarrow> 'a \<Rightarrow> int) \<Rightarrow> 'a \<Rightarrow> 'a list \<Rightarrow> 'a list" where
  "insertSorted cmp x [] = [x]"
| "insertSorted cmp x (y # ys) = (if cmp x y \<le> 0 then x # y # ys else y # insertSorted cmp x ys)"

definition jsSort :: "('a \<Rightarrow> 'a \<Rightarrow> int) \<Rightarrow> 'a list \<Rightarrow> 'a list" where
  "jsSort cmp xs = foldr (insertSorted cmp) xs []"

section \<open>\<open>repositories/goalRepository.ts\<close>\<close>

text \<open>
  The argument of \<open>createGoal\<close>. \<open>CreateGoalInput\<close> declares \<open>hoursPerWeek\<close>; the two callers
  in \<open>index.ts\<close> build the object with the property \<open>minHoursPerWeek\<close> instead, so both
  properties are kept, each \<open>None\<close> when the object does not have it.
\<close>

record CreateGoalInput =
  ci_userId :: string
  ci_title :: string
  ci_description :: "string option"
  ci_hoursPerWeek :: "rat option"
  ci_minHoursPerWeek :: "number option"
  ci_priority :: int
  ci_color :: "rat option"

text \<open>
  \<open>createGoal\<close> writes \<open>hoursPerWeek: input.hoursPerWeek\<close> and reads no other hours. The
  Firestore client of \<open>firebase.ts\<close> is configured with \<open>databaseId\<close> only, so \<open>docRef.set\<close>
  throws on a field whose value is \<open>undefined\<close> and writes nothing.
\<close>

definition createGoal :: "runtime \<Rightarrow> store \<Rightarrow> CreateGoalInput \<Rightarrow> (error + GoalRecord) \<times> store" where
  "createGoal rt s input =
     (case ci_hoursPerWeek input of
        None \<Rightarrow> (Inl FirestoreError, s)
      | Some hours \<Rightarrow>
          let record = \<lparr> g_id = autoId (nextDoc s), g_userId = ci_userId input,
                           g_title = ci_title input, g_description = ci_description input,
                           g_status = active, g_color = ci_color input,
                           hoursPerWeek = hours, g_priority = ci_priority input,
                           g_createdAt = now rt, g_updatedAt = now rt \<rparr>
          in (Inr record, s\<lparr> goals := goals s @ [record], nextDoc := Suc (nextDoc s) \<rparr>))"

text \<open>\<open>listGoals\<close>: \<open>None\<close> is the status filter \<open>'all'\<close>; the comparator is \<open>a.priority - b.priority\<close>.\<close>

definition listGoals :: "store \<Rightarrow> string \<Rightarrow> GoalStatus option \<Rightarrow> GoalRecord list" where
  "listGoals s userId statusFilter =
     jsSort (\<lambda>a b. g_priority a - g_priority b)
       (filter (\<lambda>g. g_userId g = userId \<and> (case statusFilter of None \<Rightarrow> True | Some st \<Rightarrow> g_status g = st))
          (goals s))"

text \<open>The \<open>reduce\<close> adds left to right from 0, each sum rounded as \<open>+\<close> rounds.\<close>

definition sumActiveGoalHours :: "store \<Rightarrow> string \<Rightarrow> string option \<Rightarrow> number" where
  "sumActiveGoalHours s userId excludeGoalId =
     foldl (\<lambda>total g. jsAdd total (Finite (hoursPerWeek g))) (Finite 0)
       (filter (\<lambda>g. Some (g_id g) \<noteq> excludeGoalId)
          (filter (\<lambda>g. g_userId g = userId \<and> g_status g = active) (goals s)))"

text \<open>
  Modelled from the spec: \<open>repositories/userRepository.ts\<close> is not among the sources;
  \<open>findUserById\<close> is the record store's get-by-id on the user collection.
\<close>

definition findUserById :: "store \<Rightarrow> string \<Rightarrow> UserRecord option" where
  "findUserById s userId = find (\<lambda>u. u_id u = userId) (users s)"

section \<open>Capacity: \<open>collectActiveGoalSummaries\<close> and \<open>POST /v1/goals\<close>\<close>

text \<open>
  \<open>index.ts\<close> reads \<open>goal.minHoursPerWeek\<close>. A \<open>GoalRecord\<close>, as \<open>mapGoal\<close> and \<open>createGoal\<close>
  build it, has no property of that name, so the read gives \<open>undefined\<close>.
\<close>

definition minHoursPerWeek :: "GoalRecord \<Rightarrow> number option" where
  "minHoursPerWeek goal = None"

definition collectActiveGoalSummaries :: "store \<Rightarrow> string \<Rightarrow> string option \<Rightarrow> GoalSummary list" where
  "collectActiveGoalSummaries s userId excludeGoalId =
     map (\<lambda>g. \<lparr> goalId = g_id g, gs_title = g_title g, weeklyHours = minHoursPerWeek g \<rparr>)
       (filter (\<lambda>g. Some (g_id g) \<noteq> excludeGoalId) (listGoals s userId (Some active)))"

definition insufficientHoursWithNewGoal :: "rat \<Rightarrow> number \<Rightarrow> fragment list" where
  "insufficientHoursWithNewGoal available required =
     [Lit ''Available hours ('', Num (Finite available),
      Lit ''h/week) are insufficient for current active goals ('', Num required,
      Lit ''h/week with new goal).'']"

text \<open>\<open>Number.isInteger\<close> on a finite number.\<close>

definition isInteger :: "rat \<Rightarrow> bool" where
  "isInteger r \<longleftrightarrow> of_int \<lfloor>r\<rfloor> = r"

text \<open>
  The handler of \<open>POST /v1/goals\<close>. \<open>caller\<close> is \<open>req.user?.userId\<close> as left by the
  authentication middleware, \<open>body\<close> is \<open>req.body\<close>. The result is the thrown error or the
  goal answered with 201, and the store as the handler leaves it.
\<close>

definition postGoal :: "runtime \<Rightarrow> store \<Rightarrow> string option \<Rightarrow> json \<Rightarrow> (error + GoalRecord) \<times> store" where
  "postGoal rt s caller body =
     (case caller of
        None \<Rightarrow> (Inl (ApiError 401 [Lit ''Unauthorized''] None), s)
      | Some userId \<Rightarrow>
          if userId = [] then (Inl (ApiError 401 [Lit ''Unauthorized''] None), s)
          else
            (case findUserById s userId of
               None \<Rightarrow> (Inl (ApiError 404 [Lit ''User not found.''] None), s)
             | Some usr \<Rightarrow>
                 (case stringOf (getProp body ''title'') of
                    None \<Rightarrow> (Inl (ApiError 400 [Lit ''title is required.''] None), s)
                  | Some title \<Rightarrow>
                      if \<not> length (trim title) > 0
                      then (Inl (ApiError 400 [Lit ''title is required.''] None), s)
                      else
                        (case finiteNumber (getProp body ''minHoursPerWeek'') of
                           None \<Rightarrow>
                             (Inl (ApiError 400 [Lit ''minHoursPerWeek must be a non-negative number.''] None), s)
                         | Some hours \<Rightarrow>
                             if \<not> hours \<ge> 0
                             then (Inl (ApiError 400
                                          [Lit ''minHoursPerWeek must be a non-negative number.''] None), s)
                             else
                               (case finiteNumber (getProp body ''priority'') of
                                  None \<Rightarrow> (Inl (ApiError 400 [Lit ''priority must be an integer.''] None), s)
                                | Some priority \<Rightarrow>
                                    if \<not> isInteger priority
                                    then (Inl (ApiError 400 [Lit ''priority must be an integer.''] None), s)
                                    else if getProp body ''color'' \<noteq> None
                                            \<and> finiteNumber (getProp body ''color'') = None
                                    then (Inl (ApiError 400 [Lit ''color must be a number.''] None), s)
                                    else
                                      let existingHours = sumActiveGoalHours s userId None;
                                          totalHours = jsAdd existingHours (Finite hours)
                                      in
                                      if jsGreater totalHours (Finite (availableHoursPerWeek usr)) then
                                        let conflicts = collectActiveGoalSummaries s userId None
                                        in (Inl (ApiError 409
                                                  (insufficientHoursWithNewGoal
                                                     (availableHoursPerWeek usr) totalHours)
                                                  (Some (CapacityDetails (availableHoursPerWeek usr)
                                                           totalHours conflicts))), s)
                                      else
                                        createGoal rt s
                                          \<lparr> ci_userId = userId, ci_title = trim title,
                                            ci_description = stringOf (getProp body ''description''),
                                            ci_hoursPerWeek = None,
                                            ci_minHoursPerWeek = Some (Finite hours),
                                            ci_priority = \<lfloor>priority\<rfloor>,
                                            ci_color = finiteNumber (getProp body ''color'') \<rparr>)))))"

section \<open>\<open>milestoneRepository.ts\<close> and \<open>taskRepository.ts\<close>\<close>

definition createMilestone ::
  "runtime \<Rightarrow> store \<Rightarrow> string \<Rightarrow> string \<Rightarrow> string option \<Rightarrow> string option
     \<Rightarrow> MilestoneRecord \<times> store" where
  "createMilestone rt s goalId' title description parentMilestoneId =
     (let record = \<lparr> m_id = autoId (nextDoc s), m_goalId = goalId',
                      m_parentMilestoneId = parentMilestoneId, m_title = title,
                      m_description = description, m_status = blocked,
                      m_createdAt = now rt, m_updatedAt = now rt \<rparr>
      in (record, s\<lparr> milestones := milestones s @ [record], nextDoc := Suc (nextDoc s) \<rparr>))"

text \<open>An update field that is \<open>None\<close> is \<open>undefined\<close> in the source and leaves the stored value.\<close>

record UpdateMilestoneInput =
  um_title :: "string option"
  um_description :: "string option option"
  um_status :: "MilestoneStatus option"

definition applyMilestoneUpdates :: "runtime \<Rightarrow> UpdateMilestoneInput \<Rightarrow> MilestoneRecord \<Rightarrow> MilestoneRecord" where
  "applyMilestoneUpdates rt updates m =
     m\<lparr> m_title := (case um_title updates of Some v \<Rightarrow> v | None \<Rightarrow> m_title m),
        m_description := (case um_description updates of Some v \<Rightarrow> v | None \<Rightarrow> m_description m),
        m_status := (case um_status updates of Some v \<Rightarrow> v | None \<Rightarrow> m_status m),
        m_updatedAt := now rt \<rparr>"

definition updateMilestone ::
  "runtime \<Rightarrow> store \<Rightarrow> string \<Rightarrow> UpdateMilestoneInput \<Rightarrow> (error + MilestoneRecord) \<times> store" where
  "updateMilestone rt s ident updates =
     (case find (\<lambda>m. m_id m = ident) (milestones s) of
        None \<Rightarrow> (Inl (ApiError 404 [Lit ''Milestone not found.''] None), s)
      | Some m \<Rightarrow>
          (Inr (applyMilestoneUpdates rt updates m),
           s\<lparr> milestones :=
                 map (\<lambda>x. if m_id x = ident then applyMilestoneUpdates rt updates x else x)
                   (milestones s) \<rparr>))"

definition getMilestoneById :: "store \<Rightarrow> string \<Rightarrow> MilestoneRecord option" where
  "getMilestoneById s ident = find (\<lambda>m. m_id m = ident) (milestones s)"

definition getGoalById :: "store \<Rightarrow> string \<Rightarrow> GoalRecord option" where
  "getGoalById s ident = find (\<lambda>g. g_id g = ident) (goals s)"

definition createTask ::
  "runtime \<Rightarrow> store \<Rightarrow> string \<Rightarrow> string \<Rightarrow> string \<Rightarrow> string \<Rightarrow> string option \<Rightarrow> string \<Rightarrow> rat
     \<Rightarrow> TaskRecord \<times> store" where
  "createTask rt s goalId' milestoneId userId title description date' hours =
     (let record = \<lparr> t_id = autoId (nextDoc s), t_goalId = goalId', t_milestoneId = milestoneId,
                      t_userId = userId, t_title = title, t_description = description,
                      t_date = date', estimatedHours = hours, t_done = False,
                      t_createdAt = now rt, t_updatedAt = now rt \<rparr>
      in (record, s\<lparr> tasks := tasks s @ [record], nextDoc := Suc (nextDoc s) \<rparr>))"

definition getTaskById :: "store \<Rightarrow> string \<Rightarrow> TaskRecord option" where
  "getTaskById s ident = find (\<lambda>t. t_id t = ident) (tasks s)"

record UpdateTaskInput =
  ui_title :: "string option"
  ui_description :: "string option option"
  ui_date :: "string option"
  ui_estimatedHours :: "rat option"
  ui_done :: "bool option"

definition noTaskUpdates :: UpdateTaskInput where
  "noTaskUpdates = \<lparr> ui_title = None, ui_description = None, ui_date = None,
                      ui_estimatedHours = None, ui_done = None \<rparr>"

definition applyTaskUpdates :: "runtime \<Rightarrow> UpdateTaskInput \<Rightarrow> TaskRecord \<Rightarrow> TaskRecord" where
  "applyTaskUpdates rt updates t =
     t\<lparr> t_title := (case ui_title updates of Some v \<Rightarrow> v | None \<Rightarrow> t_title t),
        t_description := (case ui_description updates of Some v \<Rightarrow> v | None \<Rightarrow> t_description t),
        t_date := (case ui_date updates of Some v \<Rightarrow> v | None \<Rightarrow> t_date t),
        estimatedHours := (case ui_estimatedHours updates of Some v \<Rightarrow> v | None \<Rightarrow> estimatedHours t),
        t_done := (case ui_done updates of Some v \<Rightarrow> v | None \<Rightarrow> t_done t),
        t_updatedAt := now rt \<rparr>"

definition updateTask ::
  "runtime \<Rightarrow> store \<Rightarrow> string \<Rightarrow> UpdateTaskInput \<Rightarrow> (error + TaskRecord) \<times> store" where
  "updateTask rt s ident updates =
     (case find (\<lambda>t. t_id t = ident) (tasks s) of
        None \<Rightarrow> (Inl (ApiError 404 [Lit ''Task not found.''] None), s)
      | Some t \<Rightarrow>
          (Inr (applyTaskUpdates rt updates t),
           s\<lparr> tasks := map (\<lambda>x. if t_id x = ident then applyTaskUpdates rt updates x else x) (tasks s) \<rparr>))"

definition setTaskDone :: "runtime \<Rightarrow> store \<Rightarrow> string \<Rightarrow> bool \<Rightarrow> (error + TaskRecord) \<times> store" where
  "setTaskDone rt s ident done' = updateTask rt s ident (noTaskUpdates\<lparr> ui_done := Some done' \<rparr>)"

definition listTasksByMilestone :: "store \<Rightarrow> string \<Rightarrow> TaskRecord list" where
  "listTasksByMilestone s milestoneId = filter (\<lambda>t. t_milestoneId t = milestoneId) (tasks s)"

text \<open>\<open>listIncompleteTasksByUser\<close> sorts with \<open>a.date.localeCompare(b.date)\<close>.\<close>

definition listIncompleteTasksByUser :: "runtime \<Rightarrow> store \<Rightarrow> string \<Rightarrow> TaskRecord list" where
  "listIncompleteTasksByUser rt s userId =
     jsSort (\<lambda>a b. localeCompare rt (t_date a) (t_date b))
       (filter (\<lambda>t. t_userId t = userId \<and> t_done t = False) (tasks s))"

text \<open>
  Modelled from the spec: \<open>repositories/goalPreviewRepository.ts\<close> is not among the sources.
  A GoalPreview is keyed by id; an upsert keeps the id it is given and overwrites the
  document under it, or allocates a new id when it is given none.
\<close>

definition findGoalPreviewById :: "store \<Rightarrow> string \<Rightarrow> GoalPreviewRecord option" where
  "findGoalPreviewById s ident = find (\<lambda>p. gp_id p = ident) (goalPreviews s)"

definition upsertGoalPreview ::
  "store \<Rightarrow> string option \<Rightarrow> string \<Rightarrow> string \<Rightarrow> json \<Rightarrow> GoalPreviewRecord \<times> store" where
  "upsertGoalPreview s ident userId sessionId data =
     (case ident of
        Some i \<Rightarrow>
          (let record = \<lparr> gp_id = i, gp_userId = userId, gp_sessionId = sessionId, gp_data = data \<rparr>
           in (record,
               s\<lparr> goalPreviews :=
                     (if \<exists>p \<in> set (goalPreviews s). gp_id p = i
                      then map (\<lambda>p. if gp_id p = i then record else p) (goalPreviews s)
                      else goalPreviews s @ [record]) \<rparr>))
      | None \<Rightarrow>
          (let record = \<lparr> gp_id = autoId (nextDoc s), gp_userId = userId,
                           gp_sessionId = sessionId, gp_data = data \<rparr>
           in (record, s\<lparr> goalPreviews := goalPreviews s @ [record], nextDoc := Suc (nextDoc s) \<rparr>)))"

section \<open>Finalization: \<open>finalizeGoalPlanFromAgentPayload\<close>\<close>

definition isValidMilestoneStatus :: "json option \<Rightarrow> MilestoneStatus option" where
  "isValidMilestoneStatus v =
     (case stringOf v of
        Some st \<Rightarrow>
          if st = ''blocked'' then Some blocked
          else if st = ''in_progress'' then Some in_progress
          else if st = ''finished'' then Some finished
          else None
      | None \<Rightarrow> None)"

definition extractPlanContainer :: "json \<Rightarrow> GoalPreviewRecord option \<Rightarrow> json" where
  "extractPlanContainer payload preview =
     (case asRecord (getProp payload ''goalPreview'') of
        Some container \<Rightarrow> container
      | None \<Rightarrow>
          (case asRecord (getProp payload ''plan'') of
             Some container \<Rightarrow> container
           | None \<Rightarrow>
               (case preview of
                  Some p \<Rightarrow> if gp_data p = JNull then payload else gp_data p
                | None \<Rightarrow> payload)))"

text \<open>The hours that one task plan contributes: \<open>task?.estimatedHours\<close>, clamped, else 0.\<close>

definition planTaskHours :: "json \<Rightarrow> rat" where
  "planTaskHours task =
     (case finiteNumber (getProp task ''estimatedHours'') of Some h \<Rightarrow> max 0 h | None \<Rightarrow> 0)"

text \<open>
  \<open>computePlanTaskHours\<close>: the outer \<open>reduce\<close> reads \<open>milestone.tasks\<close> without \<open>?.\<close>, so a
  \<open>null\<close> entry of the milestone array throws. Both \<open>reduce\<close>s add from 0, left to right.
\<close>

fun computePlanTaskHoursFrom :: "number \<Rightarrow> json list \<Rightarrow> error + number" where
  "computePlanTaskHoursFrom goalTotal [] = Inr goalTotal"
| "computePlanTaskHoursFrom goalTotal (milestone # rest) =
     (if milestone = JNull then Inl TypeError
      else computePlanTaskHoursFrom
             (jsAdd goalTotal
                (foldl (\<lambda>sum task. jsAdd sum (Finite (planTaskHours task))) (Finite 0)
                   (arrayOrEmpty (getProp milestone ''tasks''))))
             rest)"

definition computePlanTaskHours :: "json list \<Rightarrow> error + number" where
  "computePlanTaskHours milestones' = computePlanTaskHoursFrom (Finite 0) milestones'"

definition coerceIsoDayString :: "runtime \<Rightarrow> json option \<Rightarrow> string" where
  "coerceIsoDayString rt v =
     (case stringOf v of
        Some str \<Rightarrow>
          if length (trim str) > 0 then
            (case parseDate rt str of Some parsed \<Rightarrow> take 10 parsed | None \<Rightarrow> take 10 (now rt))
          else take 10 (now rt)
      | None \<Rightarrow> take 10 (now rt))"

text \<open>One turn of the inner loop over \<open>milestonePlan.tasks\<close>.\<close>

definition commitTask ::
  "runtime \<Rightarrow> store \<Rightarrow> string \<Rightarrow> string \<Rightarrow> string \<Rightarrow> json \<Rightarrow> (error + string) \<times> store" where
  "commitTask rt s goalId' milestoneId userId taskPlan =
     (let (createdTask, s1) =
            createTask rt s goalId' milestoneId userId
              (trimmedOr (getProp taskPlan ''title'') ''Task'')
              (stringOf (getProp taskPlan ''description''))
              (coerceIsoDayString rt (getProp taskPlan ''date''))
              (planTaskHours taskPlan)
      in if truthy (getProp taskPlan ''done'') then
           (case setTaskDone rt s1 (t_id createdTask) True of
              (Inl e, s2) \<Rightarrow> (Inl e, s2)
            | (Inr _, s2) \<Rightarrow> (Inr (t_id createdTask), s2))
         else (Inr (t_id createdTask), s1))"

fun commitTasks ::
  "runtime \<Rightarrow> store \<Rightarrow> string \<Rightarrow> string \<Rightarrow> string \<Rightarrow> json list \<Rightarrow> string list
     \<Rightarrow> (error + string list) \<times> store" where
  "commitTasks rt s goalId' milestoneId userId [] taskIds = (Inr taskIds, s)"
| "commitTasks rt s goalId' milestoneId userId (taskPlan # rest) taskIds =
     (case commitTask rt s goalId' milestoneId userId taskPlan of
        (Inl e, s1) \<Rightarrow> (Inl e, s1)
      | (Inr taskId, s1) \<Rightarrow> commitTasks rt s1 goalId' milestoneId userId rest (taskIds @ [taskId]))"

text \<open>
  One turn of the loop over the milestone plans, up to the inner loop: the milestone is
  created (\<open>milestonePlan.title\<close> on \<open>null\<close> throws first) and its status overridden when the
  plan names a valid status other than the one it was created with.
\<close>

definition commitMilestone ::
  "runtime \<Rightarrow> store \<Rightarrow> string \<Rightarrow> json \<Rightarrow> (error + MilestoneRecord) \<times> store" where
  "commitMilestone rt s goalId' milestonePlan =
     (if milestonePlan = JNull then (Inl TypeError, s)
      else
        let (milestone, s1) =
              createMilestone rt s goalId'
                (trimmedOr (getProp milestonePlan ''title'') ''Milestone'')
                (stringOf (getProp milestonePlan ''description'')) None
        in (case isValidMilestoneStatus (getProp milestonePlan ''status'') of
              Some milestoneStatus \<Rightarrow>
                if milestoneStatus \<noteq> m_status milestone then
                  (case updateMilestone rt s1 (m_id milestone)
                          \<lparr> um_title = None, um_description = None, um_status = Some milestoneStatus \<rparr> of
                     (Inl e, s2) \<Rightarrow> (Inl e, s2)
                   | (Inr _, s2) \<Rightarrow> (Inr milestone, s2))
                else (Inr milestone, s1)
            | None \<Rightarrow> (Inr milestone, s1)))"

fun commitMilestones ::
  "runtime \<Rightarrow> store \<Rightarrow> string \<Rightarrow> string \<Rightarrow> json list \<Rightarrow> string list \<Rightarrow> string list
     \<Rightarrow> (error + string list \<times> string list) \<times> store" where
  "commitMilestones rt s goalId' userId [] milestoneIds taskIds = (Inr (milestoneIds, taskIds), s)"
| "commitMilestones rt s goalId' userId (milestonePlan # rest) milestoneIds taskIds =
     (case commitMilestone rt s goalId' milestonePlan of
        (Inl e, s1) \<Rightarrow> (Inl e, s1)
      | (Inr milestone, s1) \<Rightarrow>
          (case commitTasks rt s1 goalId' (m_id milestone) userId
                  (arrayOrEmpty (getProp milestonePlan ''tasks'')) taskIds of
             (Inl e, s2) \<Rightarrow> (Inl e, s2)
           | (Inr taskIds', s2) \<Rightarrow>
               commitMilestones rt s2 goalId' userId rest (milestoneIds @ [m_id milestone]) taskIds'))"

record FinalizeResult =
  f_goal :: GoalRecord
  f_milestoneIds :: "string list"
  f_taskIds :: "string list"
  f_goalPreviewId :: "string option"

text \<open>The goal-level fields that finalization reads off the payload, before any check.\<close>

definition finalizePreviewId :: "json \<Rightarrow> string option" where
  "finalizePreviewId payload =
     (case readStringField (Some payload) ''goalPreviewId'' of
        Some i \<Rightarrow> Some i
      | None \<Rightarrow> readStringField (asRecord (getProp payload ''goalPreview'')) ''id'')"

definition finalizePreviewRecord :: "store \<Rightarrow> json \<Rightarrow> GoalPreviewRecord option" where
  "finalizePreviewRecord s payload =
     (case finalizePreviewId payload of
        Some i \<Rightarrow> if i \<noteq> [] then findGoalPreviewById s i else None
      | None \<Rightarrow> None)"

definition finalizeGoalPlan :: "json \<Rightarrow> json" where
  "finalizeGoalPlan planContainer =
     (case getProp planContainer ''goal'' of
        None \<Rightarrow> JObj []
      | Some JNull \<Rightarrow> JObj []
      | Some g \<Rightarrow> g)"

definition finalizePlanHours :: "json \<Rightarrow> json list \<Rightarrow> error + number" where
  "finalizePlanHours goalPlan milestonePlans =
     (case finiteNumber (getProp goalPlan ''minHoursPerWeek'') of
        Some h \<Rightarrow> Inr (Finite (max 0 h))
      | None \<Rightarrow> computePlanTaskHours milestonePlans)"

text \<open>
  The object of lines 373 to 380, from the constants of lines 344 to 355: the hours go in
  under the name \<open>minHoursPerWeek\<close>, and the object has no \<open>hoursPerWeek\<close>.
\<close>

definition finalizeGoalInput :: "UserRecord \<Rightarrow> json \<Rightarrow> number \<Rightarrow> CreateGoalInput" where
  "finalizeGoalInput usr goalPlan planHours =
     (let goalTitle = trimmedOr (getProp goalPlan ''title'') ''Untitled Goal'';
          description = stringOf (getProp goalPlan ''description'');
          priority = (case finiteNumber (getProp goalPlan ''priority'') of
                        Some p \<Rightarrow> trunc p | None \<Rightarrow> 0);
          color = finiteNumber (getProp goalPlan ''color'')
      in \<lparr> ci_userId = u_id usr, ci_title = goalTitle, ci_description = description,
           ci_hoursPerWeek = None, ci_minHoursPerWeek = Some planHours,
           ci_priority = priority, ci_color = color \<rparr>)"

definition finalizeGoalPlanFromAgentPayload ::
  "runtime \<Rightarrow> store \<Rightarrow> UserRecord \<Rightarrow> json \<Rightarrow> (error + FinalizeResult) \<times> store" where
  "finalizeGoalPlanFromAgentPayload rt s usr payload =
     (let previewId = finalizePreviewId payload;
          previewRecord = finalizePreviewRecord s payload;
          planContainer = extractPlanContainer payload previewRecord;
          goalPlan = finalizeGoalPlan planContainer;
          milestonePlans = arrayOrEmpty (getProp planContainer ''milestones'');
          goalTitle = trimmedOr (getProp goalPlan ''title'') ''Untitled Goal''
      in case finalizePlanHours goalPlan milestonePlans of
           Inl e \<Rightarrow> (Inl e, s)
         | Inr planHours \<Rightarrow>
             let existingActiveHours = sumActiveGoalHours s (u_id usr) None;
                 totalRequiredHours = jsAdd existingActiveHours planHours
             in
             if jsGreater totalRequiredHours (Finite (availableHoursPerWeek usr)) then
               let conflicts = collectActiveGoalSummaries s (u_id usr) None
                                 @ [\<lparr> goalId = ''pending'', gs_title = goalTitle,
                                      weeklyHours = Some planHours \<rparr>]
               in (Inl (ApiError 409
                         (insufficientHoursWithNewGoal (availableHoursPerWeek usr) totalRequiredHours)
                         (Some (CapacityDetails (availableHoursPerWeek usr) totalRequiredHours conflicts))),
                   s)
             else
               (case createGoal rt s (finalizeGoalInput usr goalPlan planHours) of
                  (Inl e, s1) \<Rightarrow> (Inl e, s1)
                | (Inr goal, s1) \<Rightarrow>
                    (case commitMilestones rt s1 (g_id goal) (u_id usr) milestonePlans [] [] of
                       (Inl e, s2) \<Rightarrow> (Inl e, s2)
                     | (Inr (milestoneIds, taskIds), s2) \<Rightarrow>
                         (Inr \<lparr> f_goal = goal, f_milestoneIds = milestoneIds, f_taskIds = taskIds,
                                f_goalPreviewId =
                                  (case previewRecord of Some p \<Rightarrow> Some (gp_id p) | None \<Rightarrow> previewId) \<rparr>,
                          s2))))"

section \<open>Task dates: \<open>ensureNoTaskConflict\<close> and the two task routes\<close>

definition assertOwnedGoal :: "store \<Rightarrow> string \<Rightarrow> string \<Rightarrow> error + GoalRecord" where
  "assertOwnedGoal s goalId' userId =
     (case getGoalById s goalId' of
        None \<Rightarrow> Inl (ApiError 404 [Lit ''Goal not found.''] None)
      | Some goal \<Rightarrow>
          if g_userId goal = userId then Inr goal
          else Inl (ApiError 403 [Lit ''Forbidden.''] None))"

definition assertOwnedMilestone :: "store \<Rightarrow> string \<Rightarrow> string \<Rightarrow> error + MilestoneRecord" where
  "assertOwnedMilestone s milestoneId userId =
     (case getMilestoneById s milestoneId of
        None \<Rightarrow> Inl (ApiError 404 [Lit ''Milestone not found.''] None)
      | Some milestone \<Rightarrow>
          (case assertOwnedGoal s (m_goalId milestone) userId of
             Inl e \<Rightarrow> Inl e
           | Inr _ \<Rightarrow> Inr milestone))"

definition assertOwnedTask :: "store \<Rightarrow> string \<Rightarrow> string \<Rightarrow> error + TaskRecord \<times> MilestoneRecord" where
  "assertOwnedTask s taskId userId =
     (case getTaskById s taskId of
        None \<Rightarrow> Inl (ApiError 404 [Lit ''Task not found.''] None)
      | Some task \<Rightarrow>
          (case assertOwnedMilestone s (t_milestoneId task) userId of
             Inl e \<Rightarrow> Inl e
           | Inr milestone \<Rightarrow> Inr (task, milestone)))"

definition ensureNoTaskConflict :: "store \<Rightarrow> string \<Rightarrow> string \<Rightarrow> string \<Rightarrow> string option \<Rightarrow> error option" where
  "ensureNoTaskConflict s milestoneId userId date' excludeTaskId =
     (let conflicting =
            filter (\<lambda>task. Some (t_id task) \<noteq> excludeTaskId \<and> t_userId task = userId \<and> t_date task = date')
              (listTasksByMilestone s milestoneId)
      in if length conflicting > 0 then
           Some (ApiError 409
                   [Lit ''Task date conflicts with an existing scheduled task or calendar event.'']
                   (Some (TaskConflictDetails (map t_id conflicting))))
         else None)"

definition validateEstimatedHours :: "json option \<Rightarrow> error + rat" where
  "validateEstimatedHours v =
     (case finiteNumber v of
        None \<Rightarrow> Inl (ApiError 400 [Lit ''estimatedHours must be a number.''] None)
      | Some h \<Rightarrow>
          if h \<ge> 0 then Inr h
          else Inl (ApiError 400 [Lit ''estimatedHours must be zero or positive.''] None))"

definition validateIsoDate :: "runtime \<Rightarrow> json option \<Rightarrow> error + string" where
  "validateIsoDate rt v =
     (case stringOf v of
        None \<Rightarrow> Inl (ApiError 400 [Lit ''date is required.''] None)
      | Some str \<Rightarrow>
          if \<not> length (trim str) > 0 then Inl (ApiError 400 [Lit ''date is required.''] None)
          else
            (case parseDate rt str of
               None \<Rightarrow> Inl (ApiError 400 [Lit ''Invalid date format.''] None)
             | Some parsed \<Rightarrow> Inr (take 10 parsed)))"

text \<open>\<open>typeof title === 'string' && title.trim().length > 0\<close>\<close>

definition nonBlankString :: "json option \<Rightarrow> bool" where
  "nonBlankString v = (case stringOf v of Some t \<Rightarrow> length (trim t) > 0 | None \<Rightarrow> False)"

text \<open>\<open>description === null || typeof description === 'string'\<close>\<close>

definition nullOrString :: "json option \<Rightarrow> bool" where
  "nullOrString v = (v = Some JNull \<or> stringOf v \<noteq> None)"

text \<open>\<open>req.user?.userId\<close> followed by \<open>assert(userId, 401, 'Unauthorized')\<close>.\<close>

definition authenticated :: "string option \<Rightarrow> error + string" where
  "authenticated caller =
     (case caller of
        None \<Rightarrow> Inl (ApiError 401 [Lit ''Unauthorized''] None)
      | Some userId \<Rightarrow>
          if userId = [] then Inl (ApiError 401 [Lit ''Unauthorized''] None) else Inr userId)"

text \<open>The handler of \<open>POST /v1/milestones/:milestoneId/tasks\<close>.\<close>

definition postTask ::
  "runtime \<Rightarrow> store \<Rightarrow> string option \<Rightarrow> string \<Rightarrow> json \<Rightarrow> (error + TaskRecord) \<times> store" where
  "postTask rt s caller milestoneId body =
     (case authenticated caller of
        Inl e \<Rightarrow> (Inl e, s)
      | Inr userId \<Rightarrow>
          (case assertOwnedMilestone s milestoneId userId of
             Inl e \<Rightarrow> (Inl e, s)
           | Inr milestone \<Rightarrow>
               let title = getProp body ''title'';
                   description = getProp body ''description''
               in
               if \<not> nonBlankString title
               then (Inl (ApiError 400 [Lit ''title is required.''] None), s)
               else if description \<noteq> None \<and> \<not> nullOrString description
               then (Inl (ApiError 400 [Lit ''description must be a string or null.''] None), s)
               else
                 (case validateIsoDate rt (getProp body ''date'') of
                    Inl e \<Rightarrow> (Inl e, s)
                  | Inr taskDate \<Rightarrow>
                      (case validateEstimatedHours (getProp body ''estimatedHours'') of
                         Inl e \<Rightarrow> (Inl e, s)
                       | Inr hours \<Rightarrow>
                           (case ensureNoTaskConflict s (m_id milestone) userId taskDate None of
                              Some e \<Rightarrow> (Inl e, s)
                            | None \<Rightarrow>
                                let (task, s') =
                                      createTask rt s (m_goalId milestone) (m_id milestone) userId
                                        (trimmedOr title []) (stringOf description) taskDate hours
                                in (Inr task, s'))))))"

text \<open>
  The handler of \<open>PATCH /v1/tasks/:taskId\<close>. The fields of the body are checked in the
  source's order, each only when it is present; the date is checked against the other tasks
  of the milestone as soon as it has been validated.
\<close>

definition patchTaskUpdates ::
  "runtime \<Rightarrow> store \<Rightarrow> string \<Rightarrow> TaskRecord \<Rightarrow> MilestoneRecord \<Rightarrow> json \<Rightarrow> error + UpdateTaskInput" where
  "patchTaskUpdates rt s userId task milestone body =
     (let title = getProp body ''title'';
          description = getProp body ''description'';
          date' = getProp body ''date'';
          hours = getProp body ''estimatedHours'';
          done' = getProp body ''done''
      in
      if title \<noteq> None \<and> \<not> nonBlankString title
      then Inl (ApiError 400 [Lit ''Invalid title.''] None)
      else if description \<noteq> None \<and> \<not> nullOrString description
      then Inl (ApiError 400 [Lit ''description must be a string or null.''] None)
      else
        (case (if date' = None then Inr None
               else (case validateIsoDate rt date' of
                       Inl e \<Rightarrow> Inl e
                     | Inr newDate \<Rightarrow>
                         (case ensureNoTaskConflict s (m_id milestone) userId newDate (Some (t_id task)) of
                            Some e \<Rightarrow> Inl e
                          | None \<Rightarrow> Inr (Some newDate)))) of
           Inl e \<Rightarrow> Inl e
         | Inr dateUpdate \<Rightarrow>
             (case (if hours = None then Inr None
                    else (case validateEstimatedHours hours of Inl e \<Rightarrow> Inl e | Inr h \<Rightarrow> Inr (Some h))) of
                Inl e \<Rightarrow> Inl e
              | Inr hoursUpdate \<Rightarrow>
                  (case done' of
                     None \<Rightarrow>
                       Inr \<lparr> ui_title = (if title = None then None else Some (trimmedOr title [])),
                             ui_description = (if description = None then None else Some (stringOf description)),
                             ui_date = dateUpdate, ui_estimatedHours = hoursUpdate, ui_done = None \<rparr>
                   | Some (JBool b) \<Rightarrow>
                       Inr \<lparr> ui_title = (if title = None then None else Some (trimmedOr title [])),
                             ui_description = (if description = None then None else Some (stringOf description)),
                             ui_date = dateUpdate, ui_estimatedHours = hoursUpdate, ui_done = Some b \<rparr>
                   | Some _ \<Rightarrow> Inl (ApiError 400 [Lit ''done must be a boolean.''] None)))))"

definition patchTask ::
  "runtime \<Rightarrow> store \<Rightarrow> string option \<Rightarrow> string \<Rightarrow> json \<Rightarrow> (error + TaskRecord) \<times> store" where
  "patchTask rt s caller taskId body =
     (case authenticated caller of
        Inl e \<Rightarrow> (Inl e, s)
      | Inr userId \<Rightarrow>
          (case assertOwnedTask s taskId userId of
             Inl e \<Rightarrow> (Inl e, s)
           | Inr (task, milestone) \<Rightarrow>
               (case patchTaskUpdates rt s userId task milestone body of
                  Inl e \<Rightarrow> (Inl e, s)
                | Inr updates \<Rightarrow>
                    if updates = noTaskUpdates
                    then (Inl (ApiError 400 [Lit ''No updatable fields provided.''] None), s)
                    else updateTask rt s (t_id task) updates)))"

section \<open>\<open>services/contextService.ts\<close>\<close>

text \<open>The projection that \<open>buildUserContext\<close> maps over the tasks.\<close>

definition upcomingTaskOf :: "TaskRecord \<Rightarrow> UpcomingTask" where
  "upcomingTaskOf task =
     \<lparr> ut_id = t_id task, ut_title = t_title task, ut_goalId = t_goalId task,
       ut_milestoneId = t_milestoneId task, ut_date = t_date task,
       ut_estimatedHours = estimatedHours task, ut_done = t_done task \<rparr>"

definition buildUserContext :: "runtime \<Rightarrow> store \<Rightarrow> UserRecord \<Rightarrow> UserContextSnapshot" where
  "buildUserContext rt s usr =
     (let tasks' = listIncompleteTasksByUser rt s (u_id usr);
          upcoming = jsSort (\<lambda>a b. localeCompare rt (ut_date a) (ut_date b))
                       (map upcomingTaskOf tasks');
          activeGoalHours = sumActiveGoalHours s (u_id usr) None
      in \<lparr> availableHoursLeft = jsMax0 (jsSub (Finite (availableHoursPerWeek usr)) activeGoalHours),
           upcomingTasks = upcoming \<rparr>)"

section \<open>Sessions and the transcript\<close>

text \<open>
  Modelled from the spec: \<open>repositories/sessionRepository.ts\<close> is not among the sources.
  \<open>findSessionById\<close> is the record store's get-by-id; \<open>updateSession\<close> is its partial-field
  update, which stamps \<open>updatedAt\<close> and, like the update functions of the repositories that
  are among the sources, fails with 404 when the document is absent; \<open>appendChatMessage\<close>
  adds one entry \<open>{sender, message, timestamp}\<close> to the append-only transcript.
\<close>

definition findSessionById :: "store \<Rightarrow> string \<Rightarrow> SessionStateRecord option" where
  "findSessionById s ident = find (\<lambda>x. s_id x = ident) (sessions s)"

record UpdateSessionInput =
  us_state :: string
  us_iteration :: int
  us_goalPreviewId :: "string option"
  us_sessionActive :: bool
  us_context :: sessionContext

definition applySessionUpdates :: "runtime \<Rightarrow> UpdateSessionInput \<Rightarrow> SessionStateRecord \<Rightarrow> SessionStateRecord" where
  "applySessionUpdates rt updates x =
     x\<lparr> s_state := us_state updates, s_iteration := us_iteration updates,
        s_goalPreviewId := us_goalPreviewId updates, sessionActive := us_sessionActive updates,
        s_context := us_context updates, s_updatedAt := now rt \<rparr>"

definition updateSession ::
  "runtime \<Rightarrow> store \<Rightarrow> string \<Rightarrow> UpdateSessionInput \<Rightarrow> (error + SessionStateRecord) \<times> store" where
  "updateSession rt s ident updates =
     (case find (\<lambda>x. s_id x = ident) (sessions s) of
        None \<Rightarrow> (Inl (ApiError 404 [Lit ''Session not found.''] None), s)
      | Some x \<Rightarrow>
          (Inr (applySessionUpdates rt updates x),
           s\<lparr> sessions :=
                 map (\<lambda>y. if s_id y = ident then applySessionUpdates rt updates y else y) (sessions s) \<rparr>))"

definition appendChatMessage :: "runtime \<Rightarrow> store \<Rightarrow> string \<Rightarrow> string \<Rightarrow> sender \<Rightarrow> string \<Rightarrow> store" where
  "appendChatMessage rt s chatId sessionId who text =
     s\<lparr> chat := chat s @ [\<lparr> c_sessionId = sessionId, c_chatId = chatId, c_sender = who,
                              c_message = text, c_createdAt = now rt \<rparr>],
        trace := trace s @ [ChatAppended who text] \<rparr>"

section \<open>\<open>buildAgentInvocationPayload\<close> of \<open>services/agentService.ts\<close>\<close>

text \<open>\<open>Object.keys(v).length > 0\<close>\<close>

fun hasKeys :: "json \<Rightarrow> bool" where
  "hasKeys (JObj kvs) = (kvs \<noteq> [])"
| "hasKeys (JArr xs) = (xs \<noteq> [])"
| "hasKeys (JStr str) = (str \<noteq> [])"
| "hasKeys _ = False"

definition buildAgentInvocationPayload ::
  "runtime \<Rightarrow> string \<Rightarrow> string \<Rightarrow> string \<Rightarrow> json option \<Rightarrow> number \<Rightarrow> UpcomingTask list
     \<Rightarrow> AgentInvocationPayload" where
  "buildAgentInvocationPayload rt userId sessionId text goalPreview hoursLeft upcoming =
     \<lparr> app_name = (case AGENT_APP_NAME rt of Some n \<Rightarrow> n | None \<Rightarrow> ''goal_planning_agent''),
       user_id = userId, session_id = sessionId,
       parts =
         [TextPart text]
         @ (case goalPreview of
              Some gp \<Rightarrow> if truthy (Some gp) \<and> hasKeys gp then [GoalPreviewContext gp] else []
            | None \<Rightarrow> [])
         @ [TimeContext hoursLeft]
         @ (if length upcoming > 0 then [TaskContext upcoming] else []) \<rparr>"

section \<open>The handler of \<open>POST /v1/agent/goal/session:message\<close>\<close>

definition quoted :: "string \<Rightarrow> string" where
  "quoted x = [CHR 0x27] @ x @ [CHR 0x27]"

text \<open>Lines 1027 to 1035: the caller and the body.\<close>

definition messageRequest :: "string option \<Rightarrow> json \<Rightarrow> error + string \<times> string \<times> string" where
  "messageRequest caller body =
     (case authenticated caller of
        Inl e \<Rightarrow> Inl e
      | Inr userId \<Rightarrow>
          (case stringOf (getProp body ''sessionId'') of
             None \<Rightarrow> Inl (ApiError 400 [Lit ''sessionId is required.''] None)
           | Some sessionId \<Rightarrow>
               if \<not> length (trim sessionId) > 0
               then Inl (ApiError 400 [Lit ''sessionId is required.''] None)
               else
                 (case stringOf (getProp body ''message'') of
                    None \<Rightarrow> Inl (ApiError 400 [Lit ''message is required.''] None)
                  | Some text \<Rightarrow>
                      if \<not> length (trim text) > 0
                      then Inl (ApiError 400 [Lit ''message is required.''] None)
                      else
                        (case getProp body ''userId'' of
                           None \<Rightarrow> Inr (userId, sessionId, text)
                         | Some payloadUserId \<Rightarrow>
                             if payloadUserId = JStr userId then Inr (userId, sessionId, text)
                             else Inl (ApiError 401 [Lit ''Unauthorized.''] None)))))"

text \<open>Lines 1037 to 1040: the session must exist, belong to the caller and be active.\<close>

definition authorizeSession :: "store \<Rightarrow> string \<Rightarrow> string \<Rightarrow> error + SessionStateRecord" where
  "authorizeSession s userId sessionId =
     (case findSessionById s sessionId of
        None \<Rightarrow> Inl (ApiError 400 [Lit (''Session '' @ quoted sessionId @ '' not found.'')] None)
      | Some session \<Rightarrow>
          if s_userId session \<noteq> userId then Inl (ApiError 401 [Lit ''Unauthorized.''] None)
          else if \<not> sessionActive session
          then Inl (ApiError 409
                      [Lit (''Session '' @ quoted sessionId @ '' is finalized and cannot accept new messages.'')]
                      None)
          else Inr session)"

text \<open>Lines 1047 to 1051: the plan preview that is forwarded to the engine.\<close>

definition previewForContext :: "store \<Rightarrow> SessionStateRecord \<Rightarrow> json \<Rightarrow> json option" where
  "previewForContext s session body =
     (case asRecord (getProp body ''goalPreview'') of
        Some p \<Rightarrow> Some p
      | None \<Rightarrow>
          (case s_goalPreviewId session of
             None \<Rightarrow> None
           | Some i \<Rightarrow>
               if i = [] then None
               else (case findGoalPreviewById s i of
                       None \<Rightarrow> None
                     | Some stored \<Rightarrow> if gp_data stored = JNull then None else Some (gp_data stored))))"

definition extractPreviewPayload :: "(string \<times> json) list option \<Rightarrow> string option \<times> json" where
  "extractPreviewPayload payload =
     (let container = (case payload of Some kvs \<Rightarrow> JObj kvs | None \<Rightarrow> JObj []);
          nested = (case payload of Some kvs \<Rightarrow> asRecord (getProp (JObj kvs) ''goalPreview'') | None \<Rightarrow> None);
          data = (case nested of Some n \<Rightarrow> n | None \<Rightarrow> container);
          previewId =
            (case readStringField (map_option JObj payload) ''goalPreviewId'' of
               Some i \<Rightarrow> Some i
             | None \<Rightarrow> readStringField (Some data) ''id'')
      in (previewId, data))"

text \<open>
  What lines 1082 to 1127 compute from the engine's answer: the preview pointer, the active
  flag, the context and the action that goes out.
\<close>

record ActionOutcome =
  o_goalPreviewId :: "string option"
  o_sessionActive :: bool
  o_context :: sessionContext
  o_action :: "AgentAction option"

definition jsonOfId :: "string option \<Rightarrow> json" where
  "jsonOfId i = (case i of Some x \<Rightarrow> JStr x | None \<Rightarrow> JNull)"

definition payloadFields :: "AgentAction \<Rightarrow> (string \<times> json) list" where
  "payloadFields a = (case a_payload a of Some kvs \<Rightarrow> kvs | None \<Rightarrow> [])"

definition applyAgentAction ::
  "runtime \<Rightarrow> store \<Rightarrow> UserRecord \<Rightarrow> SessionStateRecord \<Rightarrow> AgentServiceResponse
     \<Rightarrow> UserContextSnapshot \<Rightarrow> (error + ActionOutcome) \<times> store" where
  "applyAgentAction rt s usr session agentResponse contextSnapshot =
     (let goalPreviewId = s_goalPreviewId session;
          active = (case state agentResponse of
                      Some st \<Rightarrow> (case as_sessionActive st of Some b \<Rightarrow> b | None \<Rightarrow> sessionActive session)
                    | None \<Rightarrow> sessionActive session);
          updatedContext = (case r_context agentResponse of
                              Some c \<Rightarrow> if c = JNull then Snapshot contextSnapshot else EngineContext c
                            | None \<Rightarrow> Snapshot contextSnapshot);
          responseAction = action agentResponse
      in case responseAction of
           None \<Rightarrow>
             (Inr \<lparr> o_goalPreviewId = goalPreviewId, o_sessionActive = active,
                    o_context = updatedContext, o_action = None \<rparr>, s)
         | Some a \<Rightarrow>
             if a_type a = ''save_preview'' then
               let (previewId, data) = extractPreviewPayload (a_payload a);
                   (previewRecord, s1) = upsertGoalPreview s previewId (u_id usr) (s_id session) data
               in (Inr \<lparr> o_goalPreviewId = Some (gp_id previewRecord), o_sessionActive = active,
                         o_context = updatedContext,
                         o_action = Some (a\<lparr> a_payload :=
                                      Some ((''goalPreviewId'', JStr (gp_id previewRecord)) # payloadFields a) \<rparr>) \<rparr>,
                   s1)
             else if a_type a = ''finalize_goal'' then
               (case finalizeGoalPlanFromAgentPayload rt s usr (JObj (payloadFields a)) of
                  (Inl e, s1) \<Rightarrow> (Inl e, s1)
                | (Inr finalizeResult, s1) \<Rightarrow>
                    let goalPreviewId' = (case f_goalPreviewId finalizeResult of
                                            Some i \<Rightarrow> Some i | None \<Rightarrow> goalPreviewId)
                    in (Inr \<lparr> o_goalPreviewId = goalPreviewId', o_sessionActive = False,
                              o_context = Snapshot (buildUserContext rt s1 usr),
                              o_action = Some (a\<lparr> a_payload :=
                                  Some ([(''goalId'', JStr (g_id (f_goal finalizeResult))),
                                         (''milestoneIds'', JArr (map JStr (f_milestoneIds finalizeResult))),
                                         (''taskIds'', JArr (map JStr (f_taskIds finalizeResult))),
                                         (''goalPreviewId'', jsonOfId goalPreviewId')]
                                        @ payloadFields a) \<rparr>) \<rparr>,
                        s1))
             else
               (Inr \<lparr> o_goalPreviewId = goalPreviewId, o_sessionActive = active,
                      o_context = updatedContext, o_action = Some a \<rparr>, s))"

record MessageResponse =
  res_sessionId :: string
  res_reply :: string
  res_action :: "AgentAction option"
  res_state :: string
  res_iteration :: int
  res_sessionActive :: bool
  res_goalPreviewId :: "string option"
  res_context :: sessionContext

text \<open>Lines 1129 to 1135: what the handler hands to \<open>updateSession\<close>.\<close>

definition sessionUpdates ::
  "SessionStateRecord \<Rightarrow> AgentServiceResponse \<Rightarrow> ActionOutcome \<Rightarrow> UpdateSessionInput" where
  "sessionUpdates session agentResponse outcome =
     \<lparr> us_state = (case state agentResponse of
                     Some st \<Rightarrow> (case as_state st of Some v \<Rightarrow> v | None \<Rightarrow> s_state session)
                   | None \<Rightarrow> s_state session),
       us_iteration = (case state agentResponse of
                         Some st \<Rightarrow> (case as_iteration st of Some v \<Rightarrow> v | None \<Rightarrow> s_iteration session + 1)
                       | None \<Rightarrow> s_iteration session + 1),
       us_goalPreviewId = (case state agentResponse of
                             Some st \<Rightarrow> (case as_goalPreviewId st of
                                           Some v \<Rightarrow> Some v | None \<Rightarrow> o_goalPreviewId outcome)
                           | None \<Rightarrow> o_goalPreviewId outcome),
       us_sessionActive = o_sessionActive outcome,
       us_context = o_context outcome \<rparr>"

text \<open>
  Lines 1060 to 1073: the one-time bootstrap of the remote session and the run call.
  \<open>s1\<close> is the store after the user's message has been appended.
\<close>

definition callEngine ::
  "runtime \<Rightarrow> store \<Rightarrow> string \<Rightarrow> SessionStateRecord \<Rightarrow> string \<Rightarrow> json option
     \<Rightarrow> UserContextSnapshot \<Rightarrow> (error + AgentServiceResponse) \<times> store" where
  "callEngine rt s1 userId session text preview contextSnapshot =
     (let shouldInitRemoteSession = (s_iteration session = 0);
          s2 = (if shouldInitRemoteSession
                then s1\<lparr> trace := trace s1 @ [RemoteSessionInit userId (s_id session)] \<rparr> else s1)
      in case (if shouldInitRemoteSession then initRemoteSession rt userId (s_id session) else None) of
           Some e \<Rightarrow> (Inl e, s2)
         | None \<Rightarrow>
             let agentPayload =
                   buildAgentInvocationPayload rt userId (s_id session) text preview
                     (availableHoursLeft contextSnapshot) (upcomingTasks contextSnapshot)
             in (invokeAgentService rt agentPayload,
                 s2\<lparr> trace := trace s2 @ [AgentInvoked agentPayload] \<rparr>))"

text \<open>Lines 1075 to 1150: the engine has answered.\<close>

definition reconcile ::
  "runtime \<Rightarrow> store \<Rightarrow> UserRecord \<Rightarrow> SessionStateRecord \<Rightarrow> AgentServiceResponse
     \<Rightarrow> UserContextSnapshot \<Rightarrow> (error + MessageResponse) \<times> store" where
  "reconcile rt s3 usr session agentResponse contextSnapshot =
     (let s4 = appendChatMessage rt s3 (s_chatId session) (s_id session) agent (reply agentResponse)
      in case applyAgentAction rt s4 usr session agentResponse contextSnapshot of
           (Inl e, s5) \<Rightarrow> (Inl e, s5)
         | (Inr outcome, s5) \<Rightarrow>
             (case updateSession rt s5 (s_id session) (sessionUpdates session agentResponse outcome) of
                (Inl e, s6) \<Rightarrow> (Inl e, s6)
              | (Inr updatedSession, s6) \<Rightarrow>
                  (case action agentResponse of
                     None \<Rightarrow> (Inl TypeError, s6)
                   | Some original \<Rightarrow>
                       (Inr \<lparr> res_sessionId = s_id updatedSession,
                              res_reply = reply agentResponse,
                              res_action = (case o_action outcome of
                                              Some a \<Rightarrow> Some a | None \<Rightarrow> Some original),
                              res_state = s_state updatedSession,
                              res_iteration = s_iteration updatedSession,
                              res_sessionActive = sessionActive updatedSession,
                              res_goalPreviewId = s_goalPreviewId updatedSession,
                              res_context = s_context updatedSession \<rparr>,
                        s6))))"

definition postSessionMessage ::
  "runtime \<Rightarrow> store \<Rightarrow> string option \<Rightarrow> json \<Rightarrow> (error + MessageResponse) \<times> store" where
  "postSessionMessage rt s caller body =
     (case messageRequest caller body of
        Inl e \<Rightarrow> (Inl e, s)
      | Inr (userId, sessionId, text) \<Rightarrow>
          (case authorizeSession s userId sessionId of
             Inl e \<Rightarrow> (Inl e, s)
           | Inr session \<Rightarrow>
               (case findUserById s userId of
                  None \<Rightarrow> (Inl (ApiError 404 [Lit ''User not found.''] None), s)
                | Some usr \<Rightarrow>
                    let contextSnapshot = buildUserContext rt s usr;
                        preview = previewForContext s session body;
                        s1 = appendChatMessage rt s (s_chatId session) (s_id session) user text
                    in (case callEngine rt s1 userId session text preview contextSnapshot of
                          (Inl e, s3) \<Rightarrow> (Inl e, s3)
                        | (Inr agentResponse, s3) \<Rightarrow>
                            reconcile rt s3 usr session agentResponse contextSnapshot))))"

section \<open>Notions used in the statements\<close>

text \<open>The body with one field taken out.\<close>

fun withoutField :: "string \<Rightarrow> json \<Rightarrow> json" where
  "withoutField k (JObj kvs) = JObj (filter (\<lambda>kv. fst kv \<noteq> k) kvs)"
| "withoutField k v = v"

text \<open>The capacity conflict: status 409 with the hour budget in its details.\<close>

fun isCapacityConflict :: "error \<Rightarrow> bool" where
  "isCapacityConflict (ApiError st msg (Some (CapacityDetails available required conflicts))) = (st = 409)"
| "isCapacityConflict _ = False"

text \<open>Every collection but the transcript, and the identifier counter, are as they were.\<close>

definition recordsKept :: "store \<Rightarrow> store \<Rightarrow> bool" where
  "recordsKept s s' \<longleftrightarrow>
     users s' = users s \<and> goals s' = goals s \<and> milestones s' = milestones s \<and> tasks s' = tasks s
     \<and> sessions s' = sessions s \<and> goalPreviews s' = goalPreviews s \<and> nextDoc s' = nextDoc s"

text \<open>
  A comparator orders consistently when it answers 0 on equal arguments, answers a
  negative number one way round exactly when it answers a positive number the other way
  round, and its "not after" is transitive. These are the conditions under which the
  language fixes the result of \<open>Array.prototype.sort\<close>; a collation such as \<open>localeCompare\<close>
  meets them.
\<close>

definition consistentComparator :: "('a \<Rightarrow> 'a \<Rightarrow> int) \<Rightarrow> bool" where
  "consistentComparator cmp \<longleftrightarrow>
     (\<forall>a. cmp a a = 0)
     \<and> (\<forall>a b. cmp a b < 0 \<longleftrightarrow> 0 < cmp b a)
     \<and> (\<forall>a b c. cmp a b \<le> 0 \<and> cmp b c \<le> 0 \<longrightarrow> cmp a c \<le> 0)"

text \<open>
  The conflict as the specification words it: the tasks of the same user under the same
  milestone that have exactly the given date, the task being updated left out.
\<close>

definition conflictingTasks :: "store \<Rightarrow> string \<Rightarrow> string \<Rightarrow> string \<Rightarrow> string option \<Rightarrow> TaskRecord list" where
  "conflictingTasks s milestoneId userId d excluded =
     filter (\<lambda>t. t_milestoneId t = milestoneId \<and> t_userId t = userId \<and> t_date t = d
                  \<and> Some (t_id t) \<noteq> excluded) (tasks s)"

text \<open>The error that \<open>ensureNoTaskConflict\<close> throws, with the ids it lists.\<close>

definition taskDateConflict :: "string list \<Rightarrow> error" where
  "taskDateConflict ids =
     ApiError 409 [Lit ''Task date conflicts with an existing scheduled task or calendar event.'']
       (Some (TaskConflictDetails ids))"

section \<open>Scenarios\<close>

text \<open>A user with 20 hours a week, in an active session that has seen two exchanges.\<close>

definition demoUser :: UserRecord where
  "demoUser = \<lparr> u_id = ''u1'', u_email = ''u1@example.com'', u_name = ''U'', u_timezone = ''UTC'',
                 availableHoursPerWeek = 20 \<rparr>"

definition demoSession :: SessionStateRecord where
  "demoSession = \<lparr> s_id = ''sess1'', s_userId = ''u1'', s_chatId = ''chat1'',
                    s_state = ''plan_generated'', s_iteration = 2, s_goalPreviewId = None,
                    sessionActive = True,
                    s_context = Snapshot \<lparr> availableHoursLeft = Finite 20, upcomingTasks = [] \<rparr>,
                    s_createdAt = ''2025-11-01T09:00:00.000Z'', s_updatedAt = ''2025-11-01T09:00:00.000Z'' \<rparr>"

definition demoStore :: store where
  "demoStore = \<lparr> users = [demoUser], goals = [], milestones = [], tasks = [],
                  sessions = [demoSession], chat = [], goalPreviews = [], nextDoc = 0, trace = [] \<rparr>"

definition demoBody :: json where
  "demoBody = JObj [(''sessionId'', JStr ''sess1''), (''message'', JStr ''Looks good, finalize it.'')]"

text \<open>A collation that orders strings by their characters, as calendar days are ordered.\<close>

definition orderCompare :: "string \<Rightarrow> string \<Rightarrow> int" where
  "orderCompare a b = (if a < b then - 1 else if a = b then 0 else 1)"

definition demoRuntime :: "(error + AgentServiceResponse) \<Rightarrow> runtime" where
  "demoRuntime answer =
     \<lparr> now = ''2025-11-03T10:00:00.000Z'', parseDate = (\<lambda>v. None), localeCompare = orderCompare,
       AGENT_APP_NAME = None,
       initRemoteSession = (\<lambda>userId sessionId. None),
       invokeAgentService = (\<lambda>payload. answer) \<rparr>"

definition finalizeAnswer :: "rat \<Rightarrow> AgentServiceResponse" where
  "finalizeAnswer hours =
     \<lparr> reply = ''Your plan has been finalized.'',
       action = Some \<lparr> a_type = ''finalize_goal'',
                       a_payload = Some [(''goal'', JObj [(''title'', JStr ''Run a marathon''),
                                                           (''minHoursPerWeek'', JNum (Finite hours))]),
                                         (''milestones'', JArr [])] \<rparr>,
       state = Some \<lparr> as_state = Some ''finalized'', as_iteration = Some 7,
                      as_sessionActive = Some True, as_goalPreviewId = None \<rparr>,
       r_context = None \<rparr>"

definition plainAnswer :: AgentServiceResponse where
  "plainAnswer =
     \<lparr> reply = ''Tell me more.'',
       action = Some \<lparr> a_type = ''none'', a_payload = None \<rparr>,
       state = None, r_context = None \<rparr>"

text \<open>An answer that finalizes nothing and supplies its own iteration count.\<close>

definition steeredAnswer :: AgentServiceResponse where
  "steeredAnswer =
     \<lparr> reply = ''Here is a first plan.'',
       action = Some \<lparr> a_type = ''none'', a_payload = None \<rparr>,
       state = Some \<lparr> as_state = Some ''plan_generated'', as_iteration = Some 7,
                      as_sessionActive = None, as_goalPreviewId = None \<rparr>,
       r_context = None \<rparr>"

text \<open>A reasoning engine that is unreachable.\<close>

definition failingRuntime :: runtime where
  "failingRuntime =
     demoRuntime (Inl (ApiError 503 [Lit ''Agent service unavailable. Please try again later.''] None))"

text \<open>A body that names a session which does not exist, and a store whose session is closed.\<close>

definition strayBody :: json where
  "strayBody = JObj [(''sessionId'', JStr ''sess9''), (''message'', JStr ''hello'')]"

definition closedStore :: store where
  "closedStore = demoStore\<lparr> sessions := [demoSession\<lparr> sessionActive := False \<rparr>] \<rparr>"

text \<open>The demo body with a \<open>userId\<close> field.\<close>

definition bodyWithUserId :: "json \<Rightarrow> json" where
  "bodyWithUserId v =
     JObj [(''sessionId'', JStr ''sess1''), (''message'', JStr ''Looks good, finalize it.''), (''userId'', v)]"

text \<open>Scenario E: the engine finalizes a goal of 25 hours for a user who has 20.\<close>

definition scenarioE :: "(error + MessageResponse) \<times> store" where
  "scenarioE = postSessionMessage (demoRuntime (Inr (finalizeAnswer 25))) demoStore (Some ''u1'') demoBody"

definition payloadE :: json where
  "payloadE = JObj [(''goal'', JObj [(''title'', JStr ''Run a marathon''),
                                      (''minHoursPerWeek'', JNum (Finite 25))]),
                    (''milestones'', JArr [])]"

definition capacityErrorE :: error where
  "capacityErrorE =
     ApiError 409 (insufficientHoursWithNewGoal 20 (Finite 25))
       (Some (CapacityDetails 20 (Finite 25)
                [\<lparr> goalId = ''pending'', gs_title = ''Run a marathon'',
                   weeklyHours = Some (Finite 25) \<rparr>]))"

text \<open>
  A plan with a blank title, a priority that is a string, a color that is \<open>null\<close>, an
  overflowing \<open>minHoursPerWeek\<close> and four tasks, of which only the first has usable hours.
\<close>

definition roughPayload :: json where
  "roughPayload =
     JObj [(''goal'', JObj [(''title'', JStr ''  ''), (''priority'', JStr ''1''), (''color'', JNull),
                            (''minHoursPerWeek'', JNum PosInfinity)]),
           (''milestones'',
              JArr [JObj [(''tasks'', JArr [JObj [(''estimatedHours'', JNum (Finite (5 / 2)))],
                                            JObj [(''estimatedHours'', JNum (Finite (- 3)))],
                                            JObj [(''estimatedHours'', JStr ''4'')],
                                            JObj [(''estimatedHours'', JNum PosInfinity)]])]])]"

text \<open>
  Scenario B: milestone \<open>m1\<close> has a task dated 2025-11-10 and one dated 2025-11-12;
  milestone \<open>m2\<close> of the same goal has none. The date parser knows calendar days.
\<close>

definition calendarRuntime :: runtime where
  "calendarRuntime =
     failingRuntime\<lparr> parseDate := (\<lambda>v. if length v = 10 then Some (v @ ''T00:00:00.000Z'') else None) \<rparr>"

definition milestoneB :: "string \<Rightarrow> MilestoneRecord" where
  "milestoneB ident =
     \<lparr> m_id = ident, m_goalId = ''g1'', m_parentMilestoneId = None, m_title = ''M'',
       m_description = None, m_status = blocked,
       m_createdAt = ''2025-11-01T09:00:00.000Z'', m_updatedAt = ''2025-11-01T09:00:00.000Z'' \<rparr>"

definition taskB :: "string \<Rightarrow> string \<Rightarrow> TaskRecord" where
  "taskB ident day =
     \<lparr> t_id = ident, t_goalId = ''g1'', t_milestoneId = ''m1'', t_userId = ''u1'', t_title = ''T'',
       t_description = None, t_date = day, estimatedHours = 1, t_done = False,
       t_createdAt = ''2025-11-01T09:00:00.000Z'', t_updatedAt = ''2025-11-01T09:00:00.000Z'' \<rparr>"

definition storeB :: store where
  "storeB =
     demoStore\<lparr> goals := [\<lparr> g_id = ''g1'', g_userId = ''u1'', g_title = ''Portfolio'',
                              g_description = None, g_status = active, g_color = None,
                              hoursPerWeek = 5, g_priority = 1,
                              g_createdAt = ''2025-11-01T09:00:00.000Z'',
                              g_updatedAt = ''2025-11-01T09:00:00.000Z'' \<rparr>],
                milestones := [milestoneB ''m1'', milestoneB ''m2''],
                tasks := [taskB ''t1'' ''2025-11-10'', taskB ''t2'' ''2025-11-12''] \<rparr>"

definition newTaskBody :: json where
  "newTaskBody = JObj [(''title'', JStr ''Write''), (''date'', JStr ''2025-11-10''),
                       (''estimatedHours'', JNum (Finite 2))]"

definition moveBody :: json where
  "moveBody = JObj [(''date'', JStr ''2025-11-10'')]"

text \<open>Scenario A: the user has 20 hours a week and one active goal of 18 hours.\<close>

definition storeA :: store where
  "storeA =
     demoStore\<lparr> goals := [\<lparr> g_id = ''g1'', g_userId = ''u1'', g_title = ''Portfolio'',
                              g_description = None, g_status = active, g_color = None,
                              hoursPerWeek = 18, g_priority = 1,
                              g_createdAt = ''2025-11-01T09:00:00.000Z'',
                              g_updatedAt = ''2025-11-01T09:00:00.000Z'' \<rparr>] \<rparr>"

definition newGoalBody :: json where
  "newGoalBody = JObj [(''title'', JStr ''Read''), (''minHoursPerWeek'', JNum (Finite 5)),
                       (''priority'', JNum (Finite 2))]"


section \<open>Lemmas\<close>

subsection \<open>The arithmetic of doubles\<close>

text \<open>
  \<open>0.1 + 0.2\<close> is \<open>0.30000000000000004\<close>, above the double of \<open>0.3\<close>. And the capacity check
  rounds after every addition: the doubles of \<open>0.5\<close>, \<open>3.9\<close> and \<open>1.4\<close> add up exactly to the
  double of \<open>5.8\<close>, while their sum as the code takes it is \<open>5.800000000000001\<close>, which
  exceeds it.
\<close>

lemma doubles_round_sums:
  "roundDouble (1 / 10) = Finite (3602879701896397 / 2 ^ 55)
   \<and> roundDouble (2 / 10) = Finite (3602879701896397 / 2 ^ 54)
   \<and> roundDouble (3 / 10) = Finite (5404319552844595 / 2 ^ 54)
   \<and> jsAdd (roundDouble (1 / 10)) (roundDouble (2 / 10)) = Finite (5404319552844596 / 2 ^ 54)
   \<and> roundDouble (39 / 10) = Finite (8782019273372467 / 2 ^ 51)
   \<and> roundDouble (14 / 10) = Finite (3152519739159347 / 2 ^ 51)
   \<and> roundDouble (58 / 10) = Finite (6530219459687219 / 2 ^ 50)
   \<and> 1 / 2 + 8782019273372467 / 2 ^ 51 + 3152519739159347 / 2 ^ 51 = (6530219459687219 / 2 ^ 50 :: rat)
   \<and> jsAdd (jsAdd (jsAdd (Finite 0) (Finite (1 / 2))) (roundDouble (39 / 10))) (roundDouble (14 / 10))
       = Finite (6530219459687220 / 2 ^ 50)
   \<and> jsGreater
         (jsAdd (jsAdd (jsAdd (Finite 0) (Finite (1 / 2))) (roundDouble (39 / 10))) (roundDouble (14 / 10)))
         (roundDouble (58 / 10))"
  by code_simp

subsection \<open>What each operation leaves unchanged\<close>

lemma createGoal_refused:
  "ci_hoursPerWeek input = None \<Longrightarrow> createGoal rt s input = (Inl FirestoreError, s)"
  by (simp add: createGoal_def)

text \<open>Neither route hands \<open>createGoal\<close> a \<open>hoursPerWeek\<close>, so neither creates a goal.\<close>

lemma finalize_refused: "\<exists>e. finalizeGoalPlanFromAgentPayload rt s usr payload = (Inl e, s)"
  unfolding finalizeGoalPlanFromAgentPayload_def Let_def
  by (auto simp: createGoal_refused finalizeGoalInput_def Let_def split: sum.splits)

lemma postGoal_refused: "\<exists>e. postGoal rt s caller body = (Inl e, s)"
  unfolding postGoal_def Let_def
  by (auto simp: createGoal_refused split: option.splits)

lemma upsertGoalPreview_frame:
  "upsertGoalPreview s i u sid d = (p, s') \<Longrightarrow>
     users s' = users s \<and> sessions s' = sessions s \<and> chat s' = chat s \<and> trace s' = trace s
     \<and> goals s' = goals s \<and> milestones s' = milestones s \<and> tasks s' = tasks s"
  by (auto simp: upsertGoalPreview_def Let_def split: option.splits)

lemma applyAgentAction_frame:
  assumes "applyAgentAction rt s usr session resp ctx = (r, s')"
  shows "users s' = users s \<and> sessions s' = sessions s \<and> chat s' = chat s \<and> trace s' = trace s"
proof (cases "action resp")
  case None
  with assms show ?thesis by (simp add: applyAgentAction_def)
next
  case (Some a)
  show ?thesis
  proof (cases "a_type a = ''save_preview''")
    case True
    with Some assms show ?thesis
      by (auto simp: applyAgentAction_def Let_def split: prod.splits dest!: upsertGoalPreview_frame)
  next
    case notSave: False
    show ?thesis
    proof (cases "a_type a = ''finalize_goal''")
      case True
      from finalize_refused obtain e where
        "finalizeGoalPlanFromAgentPayload rt s usr (JObj (payloadFields a)) = (Inl e, s)" by blast
      with True notSave Some assms show ?thesis
        by (auto simp: applyAgentAction_def Let_def)
    next
      case False
      with notSave Some assms show ?thesis by (simp add: applyAgentAction_def)
    qed
  qed
qed


lemma find_map_update:
  assumes "\<And>y. key (f y) = key y"
  shows "find (\<lambda>y. key y = i) (map (\<lambda>y. if key y = i then f y else y) xs)
         = map_option f (find (\<lambda>y. key y = i) xs)"
  using assms by (induction xs) auto

lemma applySessionUpdates_id: "s_id (applySessionUpdates rt updates y) = s_id y"
  by (simp add: applySessionUpdates_def)

lemma updateSession_Inr:
  assumes "updateSession rt s ident updates = (Inr upd, s')"
  shows "findSessionById s' ident = Some upd
         \<and> s_iteration upd = us_iteration updates
         \<and> sessionActive upd = us_sessionActive updates
         \<and> (\<exists>x. findSessionById s ident = Some x)"
proof -
  from assms obtain x where x: "find (\<lambda>y. s_id y = ident) (sessions s) = Some x"
    and upd: "upd = applySessionUpdates rt updates x"
    and s': "s' = s\<lparr> sessions := map (\<lambda>y. if s_id y = ident then applySessionUpdates rt updates y else y) (sessions s) \<rparr>"
    by (auto simp: updateSession_def split: option.splits)
  have "find (\<lambda>y. s_id y = ident) (sessions s')
        = map_option (applySessionUpdates rt updates) (find (\<lambda>y. s_id y = ident) (sessions s))"
    unfolding s' using find_map_update [of s_id "applySessionUpdates rt updates" ident "sessions s"]
    by (simp add: applySessionUpdates_id)
  with x upd show ?thesis
    by (simp add: findSessionById_def applySessionUpdates_def)
qed

lemma authorizeSession_Inr:
  "authorizeSession s userId sid = Inr session \<Longrightarrow>
     findSessionById s sid = Some session \<and> s_id session = sid \<and> s_userId session = userId
     \<and> sessionActive session"
  by (auto simp: authorizeSession_def findSessionById_def find_Some_iff split: option.splits if_splits)

lemma findUserById_Some: "findUserById s userId = Some usr \<Longrightarrow> u_id usr = userId"
  by (auto simp: findUserById_def find_Some_iff)

lemma callEngine_Inr:
  assumes "callEngine rt s1 userId session text preview ctx = (Inr resp, s3)"
  shows "invokeAgentService rt
           (buildAgentInvocationPayload rt userId (s_id session) text preview
              (availableHoursLeft ctx) (upcomingTasks ctx)) = Inr resp
         \<and> sessions s3 = sessions s1 \<and> chat s3 = chat s1 \<and> users s3 = users s1
         \<and> goals s3 = goals s1 \<and> milestones s3 = milestones s1 \<and> tasks s3 = tasks s1"
  using assms unfolding callEngine_def Let_def
  by (auto split: option.splits if_splits)

lemma reconcile_Inr:
  assumes "reconcile rt s3 usr session resp ctx = (Inr res, s')"
  shows "\<exists>outcome s4 s5 upd.
           sessions s4 = sessions s3
         \<and> applyAgentAction rt s4 usr session resp ctx = (Inr outcome, s5)
         \<and> updateSession rt s5 (s_id session) (sessionUpdates session resp outcome) = (Inr upd, s')
         \<and> res_iteration res = s_iteration upd
         \<and> res_sessionActive res = sessionActive upd"
proof -
  let ?s4 = "appendChatMessage rt s3 (s_chatId session) (s_id session) agent (reply resp)"
  from assms obtain outcome s5 where a: "applyAgentAction rt ?s4 usr session resp ctx = (Inr outcome, s5)"
    unfolding reconcile_def Let_def by (auto split: prod.splits sum.splits)
  with assms obtain upd where u: "updateSession rt s5 (s_id session) (sessionUpdates session resp outcome) = (Inr upd, s')"
    and r: "res_iteration res = s_iteration upd" "res_sessionActive res = sessionActive upd"
    unfolding reconcile_def Let_def by (auto split: prod.splits sum.splits option.splits)
  have "sessions ?s4 = sessions s3" by (simp add: appendChatMessage_def)
  with a u r show ?thesis by blast
qed

lemma successful_exchange:
  assumes ok: "fst (postSessionMessage rt s caller body) = Inr res"
      and req: "messageRequest caller body = Inr (userId, sessionId, text)"
      and ses: "findSessionById s sessionId = Some session"
      and usr: "findUserById s userId = Some usr"
      and ans: "invokeAgentService rt
                  (buildAgentInvocationPayload rt userId sessionId text
                     (previewForContext s session body)
                     (availableHoursLeft (buildUserContext rt s usr))
                     (upcomingTasks (buildUserContext rt s usr))) = Inr agentResponse"
  shows "\<exists>outcome s4 s5 upd.
           applyAgentAction rt s4 usr session agentResponse (buildUserContext rt s usr) = (Inr outcome, s5)
         \<and> findSessionById (snd (postSessionMessage rt s caller body)) sessionId = Some upd
         \<and> s_iteration upd = us_iteration (sessionUpdates session agentResponse outcome)
         \<and> sessionActive upd = o_sessionActive outcome
         \<and> res_iteration res = s_iteration upd
         \<and> res_sessionActive res = sessionActive upd"
proof -
  obtain s' where run: "postSessionMessage rt s caller body = (Inr res, s')"
    using ok by (cases "postSessionMessage rt s caller body") simp
  from run req ses obtain sess where auth: "authorizeSession s userId sessionId = Inr sess"
    unfolding postSessionMessage_def by (auto split: sum.splits)
  from authorizeSession_Inr [OF auth] ses have sess: "sess = session" and sid: "s_id session = sessionId"
    by auto
  let ?ctx = "buildUserContext rt s usr"
  let ?s1 = "appendChatMessage rt s (s_chatId session) (s_id session) user text"
  from run req auth usr sess obtain resp s3 where
    eng: "callEngine rt ?s1 userId session text (previewForContext s session body) ?ctx = (Inr resp, s3)"
    and rec: "reconcile rt s3 usr session resp ?ctx = (Inr res, s')"
    unfolding postSessionMessage_def Let_def by (auto split: sum.splits prod.splits)
  from callEngine_Inr [OF eng] ans sid have resp: "resp = agentResponse" by simp
  from reconcile_Inr [OF rec] obtain outcome s4 s5 upd where
    app: "applyAgentAction rt s4 usr session resp ?ctx = (Inr outcome, s5)"
    and upd: "updateSession rt s5 (s_id session) (sessionUpdates session resp outcome) = (Inr upd, s')"
    and r: "res_iteration res = s_iteration upd" "res_sessionActive res = sessionActive upd"
    by blast
  from updateSession_Inr [OF upd] have
    "findSessionById s' sessionId = Some upd"
    "s_iteration upd = us_iteration (sessionUpdates session resp outcome)"
    "sessionActive upd = o_sessionActive outcome"
    by (simp_all add: sid sessionUpdates_def)
  with app r run resp show ?thesis by auto
qed

lemma updateSession_frame:
  "updateSession rt s i u = (r, s') \<Longrightarrow>
     chat s' = chat s \<and> trace s' = trace s \<and> goals s' = goals s \<and> milestones s' = milestones s
     \<and> tasks s' = tasks s \<and> users s' = users s"
  by (auto simp: updateSession_def split: option.splits)

lemma callEngine_transcript:
  assumes "callEngine rt s1 userId session text preview ctx = (r, s3)"
  shows "chat s3 = chat s1 \<and> (\<exists>evs. trace s3 = trace s1 @ evs)"
  using assms unfolding callEngine_def Let_def
  by (auto split: option.splits if_splits)

lemma reconcile_transcript:
  assumes "reconcile rt s3 usr session resp ctx = (r, s')"
  shows "(\<exists>msgs. chat s' = chat s3 @ msgs) \<and> (\<exists>evs. trace s' = trace s3 @ evs)"
proof -
  let ?s4 = "appendChatMessage rt s3 (s_chatId session) (s_id session) agent (reply resp)"
  obtain ra s5 where app: "applyAgentAction rt ?s4 usr session resp ctx = (ra, s5)"
    by (cases "applyAgentAction rt ?s4 usr session resp ctx")
  from applyAgentAction_frame [OF app] have s5: "chat s5 = chat ?s4" "trace s5 = trace ?s4" by simp_all
  have s4: "chat ?s4 = chat s3 @ [\<lparr> c_sessionId = s_id session, c_chatId = s_chatId session,
                 c_sender = agent, c_message = reply resp, c_createdAt = now rt \<rparr>]"
           "trace ?s4 = trace s3 @ [ChatAppended agent (reply resp)]"
    by (simp_all add: appendChatMessage_def)
  show ?thesis
  proof (cases ra)
    case (Inl e)
    with assms app have "s' = s5" by (simp add: reconcile_def Let_def)
    with s5 s4 show ?thesis by simp
  next
    case (Inr outcome)
    obtain ru s6 where upd: "updateSession rt s5 (s_id session) (sessionUpdates session resp outcome) = (ru, s6)"
      by (cases "updateSession rt s5 (s_id session) (sessionUpdates session resp outcome)")
    with assms app Inr have "s' = s6"
      by (auto simp: reconcile_def Let_def split: sum.splits option.splits)
    with updateSession_frame [OF upd] s5 s4 show ?thesis by simp
  qed
qed

lemma map_of_filter_key:
  "map_of (filter (\<lambda>kv. fst kv \<noteq> k) kvs) k' = (if k' = k then None else map_of kvs k')"
  by (induction kvs) auto

lemma getProp_withoutField:
  "getProp (withoutField k body) k' = (if k' = k then None else getProp body k')"
  by (cases body) (simp_all add: map_of_filter_key)

lemma finalize_capacity_conflict:
  assumes "finalizeGoalPlanFromAgentPayload rt s usr payload = (Inl e, s')"
      and "isCapacityConflict e"
  shows "s' = s"
  using assms finalize_refused [of rt s usr payload] by auto

lemma applyAgentAction_capacity_conflict:
  assumes "applyAgentAction rt s usr session resp ctx = (Inl e, s')"
      and "isCapacityConflict e"
  shows "s' = s"
  using assms unfolding applyAgentAction_def Let_def
  by (auto split: option.splits if_splits prod.splits sum.splits dest: finalize_capacity_conflict)

lemma callEngine_store:
  assumes "callEngine rt s1 userId session text preview ctx = (r, s3)"
  shows "recordsKept s1 s3"
  using assms unfolding callEngine_def Let_def recordsKept_def
  by (auto split: option.splits if_splits)

lemma updateSession_error: "updateSession rt s i u = (Inl e, s') \<Longrightarrow> \<not> isCapacityConflict e"
  by (auto simp: updateSession_def split: option.splits)

lemma reconcile_capacity_conflict:
  assumes "reconcile rt s3 usr session resp ctx = (Inl e, s')" and "isCapacityConflict e"
  shows "recordsKept s3 s'"
proof -
  let ?s4 = "appendChatMessage rt s3 (s_chatId session) (s_id session) agent (reply resp)"
  obtain ra s5 where app: "applyAgentAction rt ?s4 usr session resp ctx = (ra, s5)"
    by (cases "applyAgentAction rt ?s4 usr session resp ctx")
  show ?thesis
  proof (cases ra)
    case (Inl e')
    with assms app have "e' = e" "s' = s5" by (simp_all add: reconcile_def Let_def)
    with applyAgentAction_capacity_conflict [of rt ?s4 usr session resp ctx e s5] app Inl assms(2)
    have "s' = ?s4" by simp
    then show ?thesis by (simp add: appendChatMessage_def recordsKept_def)
  next
    case (Inr outcome)
    with assms app show ?thesis
      by (auto simp: reconcile_def Let_def split: prod.splits sum.splits option.splits
               dest: updateSession_error)
  qed
qed

lemma messageRequest_error: "messageRequest caller body = Inl e \<Longrightarrow> \<not> isCapacityConflict e"
  by (auto simp: messageRequest_def authenticated_def split: option.splits if_splits sum.splits)

lemma authorizeSession_error: "authorizeSession s userId sid = Inl e \<Longrightarrow> \<not> isCapacityConflict e"
  by (auto simp: authorizeSession_def split: option.splits if_splits)

lemma messageRequest_Inr:
  "messageRequest caller body = Inr (userId, sid, text) \<Longrightarrow>
     stringOf (getProp body ''sessionId'') = Some sid \<and> stringOf (getProp body ''message'') = Some text"
  by (auto simp: messageRequest_def split: option.splits if_splits sum.splits)

lemma handler_capacity_conflict:
  assumes run: "postSessionMessage rt s caller body = (Inl e, s')" and cap: "isCapacityConflict e"
  shows "recordsKept s s'
         \<and> (\<exists>sid session. stringOf (getProp body ''sessionId'') = Some sid
                \<and> findSessionById s sid = Some session \<and> sessionActive session)"
proof -
  from run cap obtain userId sid msg where req: "messageRequest caller body = Inr (userId, sid, msg)"
    by (cases "messageRequest caller body") (auto simp: postSessionMessage_def dest: messageRequest_error)
  from run cap req obtain session where auth: "authorizeSession s userId sid = Inr session"
    by (cases "authorizeSession s userId sid") (auto simp: postSessionMessage_def dest: authorizeSession_error)
  from run cap req auth obtain usr where usr: "findUserById s userId = Some usr"
    by (cases "findUserById s userId") (auto simp: postSessionMessage_def)
  let ?ctx = "buildUserContext rt s usr"
  let ?s1 = "appendChatMessage rt s (s_chatId session) (s_id session) user msg"
  obtain re s3 where eng: "callEngine rt ?s1 userId session msg (previewForContext s session body) ?ctx = (re, s3)"
    by (cases "callEngine rt ?s1 userId session msg (previewForContext s session body) ?ctx")
  from callEngine_store [OF eng] have s3: "recordsKept s s3"
    by (simp add: recordsKept_def appendChatMessage_def)
  have "recordsKept s s'"
  proof (cases re)
    case (Inl e')
    with run req auth usr eng have "s' = s3" by (simp add: postSessionMessage_def Let_def)
    with s3 show ?thesis by simp
  next
    case (Inr resp)
    with run req auth usr eng have "reconcile rt s3 usr session resp ?ctx = (Inl e, s')"
      by (simp add: postSessionMessage_def Let_def)
    from reconcile_capacity_conflict [OF this cap] s3 show ?thesis
      by (simp add: recordsKept_def)
  qed
  moreover from authorizeSession_Inr [OF auth] messageRequest_Inr [OF req]
  have "stringOf (getProp body ''sessionId'') = Some sid \<and> findSessionById s sid = Some session
        \<and> sessionActive session" by simp
  ultimately show ?thesis by blast
qed

subsection \<open>Sorting with a consistent comparator\<close>

lemma jsSort_Nil: "jsSort cmp [] = []"
  by (simp add: jsSort_def)

lemma jsSort_Cons: "jsSort cmp (x # xs) = insertSorted cmp x (jsSort cmp xs)"
  by (simp add: jsSort_def)

lemma set_insertSorted: "set (insertSorted cmp x xs) = insert x (set xs)"
  by (induction xs) auto




lemma consistent_swap:
  assumes "consistentComparator c" and "c a b = 0"
  shows "c b a = 0"
proof -
  from assms(1) have anti: "c x y < 0 \<longleftrightarrow> 0 < c y x" for x y
    by (simp add: consistentComparator_def)
  from anti [of a b] anti [of b a] assms(2) show ?thesis by simp
qed

lemma consistent_tie:
  assumes c: "consistentComparator c" and a: "c a k = 0" and b: "c b k = 0"
  shows "c a b = 0"
proof -
  from c have anti: "c x y < 0 \<longleftrightarrow> 0 < c y x" for x y
    by (simp add: consistentComparator_def)
  from c have trans: "c x y \<le> 0 \<Longrightarrow> c y z \<le> 0 \<Longrightarrow> c x z \<le> 0" for x y z
    unfolding consistentComparator_def by blast
  from consistent_swap [OF c a] have ka: "c k a = 0" .
  from consistent_swap [OF c b] have kb: "c k b = 0" .
  from trans [of a k b] a kb have "c a b \<le> 0" by simp
  moreover from trans [of b k a] b ka have "c b a \<le> 0" by simp
  ultimately show ?thesis using anti [of a b] by simp
qed

lemma sorted_insertSorted:
  assumes c: "consistentComparator c"
      and sorted: "sorted_wrt (\<lambda>a b. c (f a) (f b) \<le> 0) xs"
  shows "sorted_wrt (\<lambda>a b. c (f a) (f b) \<le> 0) (insertSorted (\<lambda>a b. c (f a) (f b)) x xs)"
  using sorted
proof (induction xs)
  case Nil
  then show ?case by simp
next
  case (Cons y ys)
  from c have anti: "c u v < 0 \<longleftrightarrow> 0 < c v u" for u v
    by (simp add: consistentComparator_def)
  from c have trans: "c u v \<le> 0 \<Longrightarrow> c v w \<le> 0 \<Longrightarrow> c u w \<le> 0" for u v w
    unfolding consistentComparator_def by blast
  show ?case
  proof (cases "c (f x) (f y) \<le> 0")
    case True
    with Cons.prems trans [of "f x" "f y"] show ?thesis by auto
  next
    case False
    with anti [of "f y" "f x"] have "c (f y) (f x) \<le> 0" by simp
    with False Cons show ?thesis by (auto simp: set_insertSorted)
  qed
qed

lemma sorted_jsSort:
  assumes "consistentComparator c"
  shows "sorted_wrt (\<lambda>a b. c (f a) (f b) \<le> 0) (jsSort (\<lambda>a b. c (f a) (f b)) xs)"
  by (induction xs) (simp_all add: jsSort_Nil jsSort_Cons sorted_insertSorted [OF assms])

lemma filter_insertSorted_tie:
  assumes c: "consistentComparator c"
  shows "filter (\<lambda>u. c (f u) k = 0) (insertSorted (\<lambda>a b. c (f a) (f b)) x xs)
           = (if c (f x) k = 0 then x # filter (\<lambda>u. c (f u) k = 0) xs
              else filter (\<lambda>u. c (f u) k = 0) xs)"
proof (induction xs)
  case Nil
  then show ?case by simp
next
  case (Cons y ys)
  show ?case
  proof (cases "c (f x) (f y) \<le> 0")
    case True
    then show ?thesis by simp
  next
    case False
    then have "\<not> (c (f x) k = 0 \<and> c (f y) k = 0)"
      using consistent_tie [OF c, of "f x" k "f y"] by auto
    with False Cons show ?thesis by auto
  qed
qed

text \<open>The sort is stable: the elements that tie with a key keep their listing order.\<close>

lemma filter_jsSort_tie:
  assumes "consistentComparator c"
  shows "filter (\<lambda>u. c (f u) k = 0) (jsSort (\<lambda>a b. c (f a) (f b)) xs) = filter (\<lambda>u. c (f u) k = 0) xs"
  by (induction xs) (simp_all add: jsSort_Nil jsSort_Cons filter_insertSorted_tie [OF assms])

text \<open>
  Sortedness and stability leave one arrangement only, so any stable sort returns what
  \<open>jsSort\<close> returns.
\<close>

lemma tie_filters_Nil:
  assumes c: "consistentComparator c"
      and eq: "\<And>k. filter (\<lambda>u. c (f u) k = 0) zs = []"
  shows "zs = []"
proof (cases zs)
  case Nil
  then show ?thesis .
next
  case (Cons z zs')
  from c have "c (f z) (f z) = 0" by (simp add: consistentComparator_def)
  with eq [of "f z"] Cons show ?thesis by simp
qed

lemma stable_sorted_unique:
  assumes c: "consistentComparator c"
  shows "sorted_wrt (\<lambda>a b. c (f a) (f b) \<le> 0) ys \<Longrightarrow>
         sorted_wrt (\<lambda>a b. c (f a) (f b) \<le> 0) zs \<Longrightarrow>
         (\<And>k. filter (\<lambda>u. c (f u) k = 0) ys = filter (\<lambda>u. c (f u) k = 0) zs) \<Longrightarrow>
         ys = zs"
proof (induction ys arbitrary: zs)
  case Nil
  from tie_filters_Nil [OF c, of f zs] Nil.prems(3) show ?case by simp
next
  case (Cons y ys)
  from c have refl: "c u u = 0" for u by (simp add: consistentComparator_def)
  from c have anti: "c u v < 0 \<longleftrightarrow> 0 < c v u" for u v
    by (simp add: consistentComparator_def)
  have "zs \<noteq> []"
  proof
    assume "zs = []"
    with Cons.prems(3) [of "f y"] refl [of "f y"] show False by simp
  qed
  then obtain z zs' where zs: "zs = z # zs'" by (cases zs) auto
  have "z \<in> set (filter (\<lambda>u. c (f u) (f z) = 0) (y # ys))"
    using Cons.prems(3) [of "f z"] zs refl [of "f z"] by simp
  then have zin: "z \<in> set (y # ys)" by (simp only: set_filter) blast
  have "y \<in> set (filter (\<lambda>u. c (f u) (f y) = 0) (z # zs'))"
    using Cons.prems(3) [of "f y", symmetric] zs refl [of "f y"] by simp
  then have yin: "y \<in> set (z # zs')" by (simp only: set_filter) blast
  from zin Cons.prems(1) refl [of "f y"] have yz: "c (f y) (f z) \<le> 0" by auto
  from yin Cons.prems(2) zs refl [of "f z"] have zy: "c (f z) (f y) \<le> 0" by auto
  from yz zy anti [of "f y" "f z"] anti [of "f z" "f y"] have tie: "c (f z) (f y) = 0" by simp
  from Cons.prems(3) [of "f y"] zs tie refl [of "f y"] have head: "y = z" by simp
  have rest: "filter (\<lambda>u. c (f u) k = 0) ys = filter (\<lambda>u. c (f u) k = 0) zs'" for k
    using Cons.prems(3) [of k] zs head by (simp split: if_splits)
  from Cons.prems(1) have s1: "sorted_wrt (\<lambda>a b. c (f a) (f b) \<le> 0) ys" by simp
  from Cons.prems(2) zs have s2: "sorted_wrt (\<lambda>a b. c (f a) (f b) \<le> 0) zs'" by simp
  from Cons.IH [OF s1 s2 rest] head zs show ?case by simp
qed

lemma jsSort_unique:
  assumes c: "consistentComparator c"
      and sorted: "sorted_wrt (\<lambda>a b. c (f a) (f b) \<le> 0) ys"
      and stable: "\<And>k. filter (\<lambda>u. c (f u) k = 0) ys = filter (\<lambda>u. c (f u) k = 0) xs"
  shows "ys = jsSort (\<lambda>a b. c (f a) (f b)) xs"
  using stable_sorted_unique [OF c sorted sorted_jsSort [OF c, of f xs]] stable
  by (simp add: filter_jsSort_tie [OF c])


subsection \<open>The context snapshot\<close>




subsection \<open>Task dates\<close>

lemma ensureNoTaskConflict_eq:
  "ensureNoTaskConflict s milestoneId userId d ex
     = (let conflicting =
              filter (\<lambda>t. t_milestoneId t = milestoneId \<and> Some (t_id t) \<noteq> ex
                           \<and> t_userId t = userId \<and> t_date t = d) (tasks s)
        in if conflicting \<noteq> [] then Some (taskDateConflict (map t_id conflicting)) else None)"
  by (simp add: ensureNoTaskConflict_def listTasksByMilestone_def taskDateConflict_def Let_def
                conj_commute conj_left_commute)

lemma assertOwnedMilestone_Inr:
  "assertOwnedMilestone s milestoneId userId = Inr milestone \<Longrightarrow>
     getMilestoneById s milestoneId = Some milestone \<and> m_id milestone = milestoneId"
  by (auto simp: assertOwnedMilestone_def getMilestoneById_def find_Some_iff
           split: option.splits sum.splits)

lemma assertOwnedTask_Inr:
  "assertOwnedTask s taskId userId = Inr (task, milestone) \<Longrightarrow>
     getTaskById s taskId = Some task \<and> t_id task = taskId \<and> m_id milestone = t_milestoneId task"
  by (auto simp: assertOwnedTask_def getTaskById_def find_Some_iff
           split: option.splits sum.splits dest: assertOwnedMilestone_Inr)

lemma postTask_conflict:
  assumes auth: "authenticated caller = Inr userId"
      and own: "assertOwnedMilestone s milestoneId userId = Inr milestone"
      and title: "nonBlankString (getProp body ''title'')"
      and descr: "getProp body ''description'' = None \<or> nullOrString (getProp body ''description'')"
      and day: "validateIsoDate rt (getProp body ''date'') = Inr taskDate"
      and hours: "validateEstimatedHours (getProp body ''estimatedHours'') = Inr h"
      and conflicting: "conflicting = filter (\<lambda>t. t_milestoneId t = milestoneId \<and> t_userId t = userId
                                                   \<and> t_date t = taskDate) (tasks s)"
  shows "if conflicting \<noteq> []
         then postTask rt s caller milestoneId body = (Inl (taskDateConflict (map t_id conflicting)), s)
         else \<exists>task. postTask rt s caller milestoneId body
                        = (Inr task, s\<lparr> tasks := tasks s @ [task], nextDoc := Suc (nextDoc s) \<rparr>)
                    \<and> t_date task = taskDate \<and> t_milestoneId task = milestoneId
                    \<and> t_userId task = userId"
proof -
  from assertOwnedMilestone_Inr [OF own] have mid: "m_id milestone = milestoneId" by simp
  have chk: "ensureNoTaskConflict s (m_id milestone) userId taskDate None
             = (if conflicting \<noteq> [] then Some (taskDateConflict (map t_id conflicting)) else None)"
    by (simp add: ensureNoTaskConflict_eq mid conflicting Let_def)
  show ?thesis
  proof (cases "conflicting \<noteq> []")
    case True
    with auth own title descr day hours chk show ?thesis
      by (auto simp: postTask_def Let_def)
  next
    case False
    with auth own title descr day hours chk mid show ?thesis
      by (auto simp: postTask_def Let_def createTask_def)
  qed
qed

lemma updateTask_found:
  assumes "getTaskById s ident = Some task"
  shows "updateTask rt s ident updates
           = (Inr (applyTaskUpdates rt updates task),
              s\<lparr> tasks := map (\<lambda>x. if t_id x = ident then applyTaskUpdates rt updates x else x) (tasks s) \<rparr>)"
  using assms by (simp add: updateTask_def getTaskById_def)

lemma patchTask_conflict:
  assumes auth: "authenticated caller = Inr userId"
      and own: "assertOwnedTask s taskId userId = Inr (task, milestone)"
      and title: "getProp body ''title'' = None \<or> nonBlankString (getProp body ''title'')"
      and descr: "getProp body ''description'' = None \<or> nullOrString (getProp body ''description'')"
      and given: "getProp body ''date'' \<noteq> None"
      and day: "validateIsoDate rt (getProp body ''date'') = Inr newDate"
      and conflicting: "conflicting = filter (\<lambda>t. t_milestoneId t = t_milestoneId task \<and> t_id t \<noteq> taskId
                                                   \<and> t_userId t = userId \<and> t_date t = newDate) (tasks s)"
  shows "if conflicting \<noteq> []
         then patchTask rt s caller taskId body = (Inl (taskDateConflict (map t_id conflicting)), s)
         else (\<forall>ids. fst (patchTask rt s caller taskId body) \<noteq> Inl (taskDateConflict ids))
            \<and> ((getProp body ''estimatedHours'' = None
                   \<or> (\<exists>h. validateEstimatedHours (getProp body ''estimatedHours'') = Inr h))
                \<and> (getProp body ''done'' = None \<or> (\<exists>b. getProp body ''done'' = Some (JBool b)))
                \<longrightarrow> (\<exists>updated. fst (patchTask rt s caller taskId body) = Inr updated
                        \<and> t_id updated = taskId \<and> t_date updated = newDate))"
proof -
  from assertOwnedTask_Inr [OF own] have tk: "getTaskById s taskId = Some task" "t_id task = taskId"
    "m_id milestone = t_milestoneId task" by simp_all
  have chk: "ensureNoTaskConflict s (m_id milestone) userId newDate (Some (t_id task))
             = (if conflicting \<noteq> [] then Some (taskDateConflict (map t_id conflicting)) else None)"
    by (simp add: ensureNoTaskConflict_eq tk conflicting Let_def)
  show ?thesis
  proof (cases "conflicting \<noteq> []")
    case True
    with title descr given day chk have
      "patchTaskUpdates rt s userId task milestone body = Inl (taskDateConflict (map t_id conflicting))"
      by (auto simp: patchTaskUpdates_def Let_def)
    with auth own True show ?thesis by (simp add: patchTask_def)
  next
    case False
    have noConflict: "e \<noteq> taskDateConflict ids"
      if "patchTaskUpdates rt s userId task milestone body = Inl e" for e ids
      using that title descr given day chk False
      by (auto simp: patchTaskUpdates_def Let_def taskDateConflict_def validateEstimatedHours_def
               split: if_splits sum.splits option.splits json.splits)
    have a: "fst (patchTask rt s caller taskId body) \<noteq> Inl (taskDateConflict ids)" for ids
    proof (cases "patchTaskUpdates rt s userId task milestone body")
      case (Inl e)
      with auth own noConflict [OF Inl] show ?thesis by (simp add: patchTask_def)
    next
      case (Inr updates)
      with auth own tk show ?thesis
        by (simp add: patchTask_def updateTask_found taskDateConflict_def)
    qed
    have b: "\<exists>updated. fst (patchTask rt s caller taskId body) = Inr updated
                        \<and> t_id updated = taskId \<and> t_date updated = newDate"
      if ok: "(getProp body ''estimatedHours'' = None
                \<or> (\<exists>h. validateEstimatedHours (getProp body ''estimatedHours'') = Inr h))
              \<and> (getProp body ''done'' = None \<or> (\<exists>b. getProp body ''done'' = Some (JBool b)))"
    proof -
      from ok obtain hoursUpdate where
        hu: "(if getProp body ''estimatedHours'' = None then Inr None
              else (case validateEstimatedHours (getProp body ''estimatedHours'') of
                      Inl e \<Rightarrow> Inl e | Inr h \<Rightarrow> Inr (Some h))) = Inr hoursUpdate"
        by (cases "getProp body ''estimatedHours'' = None") auto
      from given day chk False have
        du: "(if getProp body ''date'' = None then Inr None
              else (case validateIsoDate rt (getProp body ''date'') of
                      Inl e \<Rightarrow> Inl e
                    | Inr newDate \<Rightarrow>
                        (case ensureNoTaskConflict s (m_id milestone) userId newDate (Some (t_id task)) of
                           Some e \<Rightarrow> Inl e
                         | None \<Rightarrow> Inr (Some newDate)))) = Inr (Some newDate)"
        by simp
      from title descr have
        pre: "\<not> (getProp body ''title'' \<noteq> None \<and> \<not> nonBlankString (getProp body ''title''))"
             "\<not> (getProp body ''description'' \<noteq> None \<and> \<not> nullOrString (getProp body ''description''))"
        by auto
      from ok consider (none) "getProp body ''done'' = None"
        | (bool) b where "getProp body ''done'' = Some (JBool b)" by auto
      then obtain updates where
        u: "patchTaskUpdates rt s userId task milestone body = Inr updates" "ui_date updates = Some newDate"
      proof cases
        case none
        show ?thesis
          by (rule that [of "\<lparr> ui_title = (if getProp body ''title'' = None then None
                                              else Some (trimmedOr (getProp body ''title'') [])),
                               ui_description = (if getProp body ''description'' = None then None
                                                 else Some (stringOf (getProp body ''description''))),
                               ui_date = Some newDate, ui_estimatedHours = hoursUpdate, ui_done = None \<rparr>"])
             (simp_all only: patchTaskUpdates_def Let_def pre du hu none if_False sum.case option.case
                             UpdateTaskInput.select_convs)
      next
        case (bool b)
        show ?thesis
          by (rule that [of "\<lparr> ui_title = (if getProp body ''title'' = None then None
                                              else Some (trimmedOr (getProp body ''title'') [])),
                               ui_description = (if getProp body ''description'' = None then None
                                                 else Some (stringOf (getProp body ''description''))),
                               ui_date = Some newDate, ui_estimatedHours = hoursUpdate, ui_done = Some b \<rparr>"])
             (simp_all only: patchTaskUpdates_def Let_def pre du hu bool if_False sum.case option.case
                             json.case UpdateTaskInput.select_convs)
      qed
      then have "updates \<noteq> noTaskUpdates" by (auto simp: noTaskUpdates_def)
      with u auth own tk show ?thesis
        by (simp add: patchTask_def updateTask_found applyTaskUpdates_def)
    qed
    from False a b show ?thesis by simp
  qed
qed

section \<open>Properties of the specification\<close>

subsection \<open>Capacity on goal creation\<close>

text \<open>
  C1. Both routes compare the sum of the active goals' hours plus the new goal's hours with
  the user's weekly hours, and in Scenario A both reject the goal of 5 hours with 409,
  \<open>availableHoursPerWeek = 20\<close> and \<open>requiredHoursPerWeek = 23\<close>. The rest of the statement
  does not hold of the code. The rejection of the direct route lists the existing goal
  only: the entry for the pending goal, which finalization adds for the same plan, is
  missing. The entry of an existing goal carries no weekly hours on either route. And a
  goal within capacity is not created on either route: with no active goal at all the same
  request ends in the error of the refused write and leaves the store as it was, as every
  call of either route does.
\<close>

theorem C1_goal_creation_capacity:
  "postGoal failingRuntime storeA (Some ''u1'') newGoalBody
     = (Inl (ApiError 409 (insufficientHoursWithNewGoal 20 (Finite 23))
               (Some (CapacityDetails 20 (Finite 23)
                        [\<lparr> goalId = ''g1'', gs_title = ''Portfolio'', weeklyHours = None \<rparr>]))),
        storeA)
   \<and> finalizeGoalPlanFromAgentPayload failingRuntime storeA demoUser (JObj [(''goal'', newGoalBody)])
     = (Inl (ApiError 409 (insufficientHoursWithNewGoal 20 (Finite 23))
               (Some (CapacityDetails 20 (Finite 23)
                        [\<lparr> goalId = ''g1'', gs_title = ''Portfolio'', weeklyHours = None \<rparr>,
                         \<lparr> goalId = ''pending'', gs_title = ''Read'', weeklyHours = Some (Finite 5) \<rparr>]))),
        storeA)
   \<and> postGoal failingRuntime demoStore (Some ''u1'') newGoalBody = (Inl FirestoreError, demoStore)
   \<and> finalizeGoalPlanFromAgentPayload failingRuntime demoStore demoUser (JObj [(''goal'', newGoalBody)])
     = (Inl FirestoreError, demoStore)
   \<and> isl (fst (postGoal rt s caller body)) \<and> snd (postGoal rt s caller body) = s
   \<and> isl (fst (finalizeGoalPlanFromAgentPayload rt s usr payload))
   \<and> snd (finalizeGoalPlanFromAgentPayload rt s usr payload) = s"
proof -
  have a: "postGoal failingRuntime storeA (Some ''u1'') newGoalBody
     = (Inl (ApiError 409 (insufficientHoursWithNewGoal 20 (Finite 23))
               (Some (CapacityDetails 20 (Finite 23)
                        [\<lparr> goalId = ''g1'', gs_title = ''Portfolio'', weeklyHours = None \<rparr>]))),
        storeA)"
    by code_simp
  have b: "finalizeGoalPlanFromAgentPayload failingRuntime storeA demoUser (JObj [(''goal'', newGoalBody)])
     = (Inl (ApiError 409 (insufficientHoursWithNewGoal 20 (Finite 23))
               (Some (CapacityDetails 20 (Finite 23)
                        [\<lparr> goalId = ''g1'', gs_title = ''Portfolio'', weeklyHours = None \<rparr>,
                         \<lparr> goalId = ''pending'', gs_title = ''Read'', weeklyHours = Some (Finite 5) \<rparr>]))),
        storeA)"
    by code_simp
  have c: "postGoal failingRuntime demoStore (Some ''u1'') newGoalBody = (Inl FirestoreError, demoStore)"
    by code_simp
  have d: "finalizeGoalPlanFromAgentPayload failingRuntime demoStore demoUser (JObj [(''goal'', newGoalBody)])
     = (Inl FirestoreError, demoStore)"
    by code_simp
  from postGoal_refused [of rt s caller body]
  have e: "isl (fst (postGoal rt s caller body))" "snd (postGoal rt s caller body) = s" by auto
  from finalize_refused [of rt s usr payload]
  have f: "isl (fst (finalizeGoalPlanFromAgentPayload rt s usr payload))"
    "snd (finalizeGoalPlanFromAgentPayload rt s usr payload) = s" by auto
  from a b c d e f show ?thesis by simp
qed

subsection \<open>A rejected finalization\<close>

text \<open>
  C2. When finalization rejects with the capacity conflict it returns the store it was
  given: no Goal, Milestone or Task has been written. When the message handler ends in
  that error, the goals, milestones, tasks and sessions are those from before the request
  (only the transcript has grown), so \<open>updateSession\<close> was not reached and the session of
  the request is still active.
\<close>

theorem C2_capacity_rejection_writes_nothing:
  "(finalizeGoalPlanFromAgentPayload rt s usr payload = (Inl e, s') \<and> isCapacityConflict e \<longrightarrow> s' = s)
   \<and> (postSessionMessage rt s0 caller body = (Inl e0, s0') \<and> isCapacityConflict e0 \<longrightarrow>
        goals s0' = goals s0 \<and> milestones s0' = milestones s0 \<and> tasks s0' = tasks s0
        \<and> sessions s0' = sessions s0
        \<and> (\<exists>sid session. stringOf (getProp body ''sessionId'') = Some sid
               \<and> findSessionById s0' sid = Some session \<and> sessionActive session))"
proof (rule conjI; rule impI)
  assume "finalizeGoalPlanFromAgentPayload rt s usr payload = (Inl e, s') \<and> isCapacityConflict e"
  then show "s' = s" using finalize_capacity_conflict by blast
next
  assume h: "postSessionMessage rt s0 caller body = (Inl e0, s0') \<and> isCapacityConflict e0"
  from handler_capacity_conflict [of rt s0 caller body e0 s0'] h
  have k: "recordsKept s0 s0'"
    and a: "\<exists>sid session. stringOf (getProp body ''sessionId'') = Some sid
                \<and> findSessionById s0 sid = Some session \<and> sessionActive session"
    by simp_all
  from k have eq: "goals s0' = goals s0" "milestones s0' = milestones s0" "tasks s0' = tasks s0"
    "sessions s0' = sessions s0" by (simp_all add: recordsKept_def)
  then have "findSessionById s0' sid = findSessionById s0 sid" for sid
    by (simp add: findSessionById_def)
  with a eq show "goals s0' = goals s0 \<and> milestones s0' = milestones s0 \<and> tasks s0' = tasks s0
        \<and> sessions s0' = sessions s0
        \<and> (\<exists>sid session. stringOf (getProp body ''sessionId'') = Some sid
               \<and> findSessionById s0' sid = Some session \<and> sessionActive session)"
    by simp
qed

theorem C2_capacity_rejection_writes_nothing_witness:
  "finalizeGoalPlanFromAgentPayload (demoRuntime (Inr (finalizeAnswer 25))) demoStore demoUser payloadE
     = (Inl capacityErrorE, demoStore)
   \<and> isCapacityConflict capacityErrorE
   \<and> fst scenarioE = Inl capacityErrorE
   \<and> goals (snd scenarioE) = [] \<and> milestones (snd scenarioE) = [] \<and> tasks (snd scenarioE) = []
   \<and> sessions (snd scenarioE) = [demoSession]
   \<and> (\<exists>sid session. stringOf (getProp demoBody ''sessionId'') = Some sid
          \<and> findSessionById (snd scenarioE) sid = Some session \<and> sessionActive session)"
proof -
  let ?rt = "demoRuntime (Inr (finalizeAnswer 25))"
  have fin: "finalizeGoalPlanFromAgentPayload ?rt demoStore demoUser payloadE = (Inl capacityErrorE, demoStore)"
    by code_simp
  have cap: "isCapacityConflict capacityErrorE" by code_simp
  have err: "fst scenarioE = Inl capacityErrorE" by code_simp
  then have run: "postSessionMessage ?rt demoStore (Some ''u1'') demoBody = (Inl capacityErrorE, snd scenarioE)"
    by (simp add: scenarioE_def prod_eq_iff)
  have before: "goals demoStore = []" "milestones demoStore = []" "tasks demoStore = []"
    "sessions demoStore = [demoSession]" by (simp_all add: demoStore_def)
  from C2_capacity_rejection_writes_nothing
         [of ?rt demoStore demoUser payloadE capacityErrorE demoStore demoStore "Some ''u1''" demoBody
             capacityErrorE "snd scenarioE"]
       fin cap run err before
  show ?thesis by simp
qed

subsection \<open>Rejected message requests\<close>

text \<open>
  C3, as stated, fails: an unknown session id is answered with status 400, not with a
  NotFound-class status, and a session of another user with status 401, not with a
  Forbidden-class status.
\<close>

theorem C3_session_rejections_counterexample:
  "findSessionById demoStore ''sess9'' = None
   \<and> fst (postSessionMessage failingRuntime demoStore (Some ''u1'') strayBody)
       = Inl (ApiError 400 [Lit (''Session '' @ quoted ''sess9'' @ '' not found.'')] None)
   \<and> status (projl (fst (postSessionMessage failingRuntime demoStore (Some ''u1'') strayBody))) \<noteq> 404
   \<and> findSessionById demoStore ''sess1'' = Some demoSession
   \<and> s_userId demoSession \<noteq> ''u2''
   \<and> fst (postSessionMessage failingRuntime demoStore (Some ''u2'') demoBody)
       = Inl (ApiError 401 [Lit ''Unauthorized.''] None)
   \<and> status (projl (fst (postSessionMessage failingRuntime demoStore (Some ''u2'') demoBody))) \<noteq> 403"
  by code_simp

text \<open>
  C3, amended. For a message request whose body has passed validation: a session id that
  resolves to no session is rejected with status 400 and the message that the session was
  not found, a session owned by another user with status 401, and a session whose
  \<open>sessionActive\<close> is false with status 409 and a message that names the session id. In
  all three cases the store is returned as it was: no chat entry, no session update.
\<close>

theorem C3_session_rejections:
  assumes req: "messageRequest caller body = Inr (userId, sessionId, text)"
  shows "(findSessionById s sessionId = None \<longrightarrow>
            postSessionMessage rt s caller body
              = (Inl (ApiError 400 [Lit (''Session '' @ quoted sessionId @ '' not found.'')] None), s))
       \<and> (\<forall>session. findSessionById s sessionId = Some session \<and> s_userId session \<noteq> userId \<longrightarrow>
            postSessionMessage rt s caller body = (Inl (ApiError 401 [Lit ''Unauthorized.''] None), s))
       \<and> (\<forall>session. findSessionById s sessionId = Some session \<and> s_userId session = userId
                     \<and> \<not> sessionActive session \<longrightarrow>
            postSessionMessage rt s caller body
              = (Inl (ApiError 409
                        [Lit (''Session '' @ quoted sessionId
                              @ '' is finalized and cannot accept new messages.'')] None), s))"
  using req by (simp add: postSessionMessage_def authorizeSession_def)

theorem C3_session_rejections_witness:
  "messageRequest (Some ''u1'') strayBody = Inr (''u1'', ''sess9'', ''hello'')
   \<and> findSessionById demoStore ''sess9'' = None
   \<and> postSessionMessage failingRuntime demoStore (Some ''u1'') strayBody
       = (Inl (ApiError 400 [Lit (''Session '' @ quoted ''sess9'' @ '' not found.'')] None), demoStore)
   \<and> messageRequest (Some ''u2'') demoBody = Inr (''u2'', ''sess1'', ''Looks good, finalize it.'')
   \<and> findSessionById demoStore ''sess1'' = Some demoSession \<and> s_userId demoSession \<noteq> ''u2''
   \<and> postSessionMessage failingRuntime demoStore (Some ''u2'') demoBody
       = (Inl (ApiError 401 [Lit ''Unauthorized.''] None), demoStore)
   \<and> messageRequest (Some ''u1'') demoBody = Inr (''u1'', ''sess1'', ''Looks good, finalize it.'')
   \<and> findSessionById closedStore ''sess1'' = Some (demoSession\<lparr> sessionActive := False \<rparr>)
   \<and> postSessionMessage failingRuntime closedStore (Some ''u1'') demoBody
       = (Inl (ApiError 409
                 [Lit (''Session '' @ quoted ''sess1''
                       @ '' is finalized and cannot accept new messages.'')] None), closedStore)"
proof -
  have r1: "messageRequest (Some ''u1'') strayBody = Inr (''u1'', ''sess9'', ''hello'')" by code_simp
  have f1: "findSessionById demoStore ''sess9'' = None" by code_simp
  have r2: "messageRequest (Some ''u2'') demoBody = Inr (''u2'', ''sess1'', ''Looks good, finalize it.'')"
    by code_simp
  have f2: "findSessionById demoStore ''sess1'' = Some demoSession" by code_simp
  have o2: "s_userId demoSession \<noteq> ''u2''" by code_simp
  have r3: "messageRequest (Some ''u1'') demoBody = Inr (''u1'', ''sess1'', ''Looks good, finalize it.'')"
    by code_simp
  have f3: "findSessionById closedStore ''sess1'' = Some (demoSession\<lparr> sessionActive := False \<rparr>)"
    by code_simp
  have o3: "s_userId (demoSession\<lparr> sessionActive := False \<rparr>) = ''u1''
            \<and> \<not> sessionActive (demoSession\<lparr> sessionActive := False \<rparr>)"
    by code_simp
  from C3_session_rejections [OF r1, of demoStore failingRuntime]
       C3_session_rejections [OF r2, of demoStore failingRuntime]
       C3_session_rejections [OF r3, of closedStore failingRuntime]
       r1 f1 r2 f2 o2 r3 f3 o3
  show ?thesis by blast
qed

subsection \<open>Task dates\<close>

text \<open>
  C4. For an authenticated caller whose request has passed the ownership and field checks
  that precede the date check: creating a task under a milestone is rejected with the 409
  conflict, listing the ids of the conflicting tasks and writing nothing, exactly when some
  task of the caller under that milestone already has the same date, and otherwise the task
  is created; updating a task's date is rejected in the same way exactly when some other
  task of the caller under the task's milestone has the new date, and otherwise is not
  rejected with that conflict and, the remaining fields being valid, succeeds. Tasks under
  other milestones never count.
\<close>

theorem C4_task_date_conflict:
  assumes auth: "authenticated caller = Inr userId"
  shows "(assertOwnedMilestone s milestoneId userId = Inr milestone
            \<and> nonBlankString (getProp body ''title'')
            \<and> (getProp body ''description'' = None \<or> nullOrString (getProp body ''description''))
            \<and> validateIsoDate rt (getProp body ''date'') = Inr taskDate
            \<and> validateEstimatedHours (getProp body ''estimatedHours'') = Inr h
          \<longrightarrow> (if conflictingTasks s milestoneId userId taskDate None \<noteq> []
               then postTask rt s caller milestoneId body
                      = (Inl (taskDateConflict (map t_id (conflictingTasks s milestoneId userId taskDate None))), s)
               else \<exists>task. postTask rt s caller milestoneId body
                              = (Inr task, s\<lparr> tasks := tasks s @ [task], nextDoc := Suc (nextDoc s) \<rparr>)
                          \<and> t_date task = taskDate \<and> t_milestoneId task = milestoneId
                          \<and> t_userId task = userId))
       \<and> (assertOwnedTask s taskId userId = Inr (task', milestone')
            \<and> (getProp patch ''title'' = None \<or> nonBlankString (getProp patch ''title''))
            \<and> (getProp patch ''description'' = None \<or> nullOrString (getProp patch ''description''))
            \<and> getProp patch ''date'' \<noteq> None
            \<and> validateIsoDate rt (getProp patch ''date'') = Inr newDate
          \<longrightarrow> (if conflictingTasks s (t_milestoneId task') userId newDate (Some taskId) \<noteq> []
               then patchTask rt s caller taskId patch
                      = (Inl (taskDateConflict
                                (map t_id (conflictingTasks s (t_milestoneId task') userId newDate (Some taskId)))), s)
               else (\<forall>ids. fst (patchTask rt s caller taskId patch) \<noteq> Inl (taskDateConflict ids))
                  \<and> ((getProp patch ''estimatedHours'' = None
                         \<or> (\<exists>h'. validateEstimatedHours (getProp patch ''estimatedHours'') = Inr h'))
                      \<and> (getProp patch ''done'' = None \<or> (\<exists>b. getProp patch ''done'' = Some (JBool b)))
                      \<longrightarrow> (\<exists>updated. fst (patchTask rt s caller taskId patch) = Inr updated
                              \<and> t_id updated = taskId \<and> t_date updated = newDate))))"
proof (rule conjI; rule impI)
  assume a: "assertOwnedMilestone s milestoneId userId = Inr milestone
            \<and> nonBlankString (getProp body ''title'')
            \<and> (getProp body ''description'' = None \<or> nullOrString (getProp body ''description''))
            \<and> validateIsoDate rt (getProp body ''date'') = Inr taskDate
            \<and> validateEstimatedHours (getProp body ''estimatedHours'') = Inr h"
  have c: "conflictingTasks s milestoneId userId taskDate None
           = filter (\<lambda>t. t_milestoneId t = milestoneId \<and> t_userId t = userId \<and> t_date t = taskDate) (tasks s)"
    by (simp add: conflictingTasks_def)
  from a postTask_conflict [OF auth _ _ _ _ _ c, of milestone body rt h]
  show "if conflictingTasks s milestoneId userId taskDate None \<noteq> []
        then postTask rt s caller milestoneId body
               = (Inl (taskDateConflict (map t_id (conflictingTasks s milestoneId userId taskDate None))), s)
        else \<exists>task. postTask rt s caller milestoneId body
                       = (Inr task, s\<lparr> tasks := tasks s @ [task], nextDoc := Suc (nextDoc s) \<rparr>)
                   \<and> t_date task = taskDate \<and> t_milestoneId task = milestoneId
                   \<and> t_userId task = userId"
    by blast
next
  assume a: "assertOwnedTask s taskId userId = Inr (task', milestone')
            \<and> (getProp patch ''title'' = None \<or> nonBlankString (getProp patch ''title''))
            \<and> (getProp patch ''description'' = None \<or> nullOrString (getProp patch ''description''))
            \<and> getProp patch ''date'' \<noteq> None
            \<and> validateIsoDate rt (getProp patch ''date'') = Inr newDate"
  have c: "conflictingTasks s (t_milestoneId task') userId newDate (Some taskId)
           = filter (\<lambda>t. t_milestoneId t = t_milestoneId task' \<and> t_id t \<noteq> taskId
                         \<and> t_userId t = userId \<and> t_date t = newDate) (tasks s)"
    by (simp add: conflictingTasks_def conj_commute conj_left_commute)
  from a patchTask_conflict [OF auth _ _ _ _ _ c, of milestone' patch rt]
  show "if conflictingTasks s (t_milestoneId task') userId newDate (Some taskId) \<noteq> []
        then patchTask rt s caller taskId patch
               = (Inl (taskDateConflict
                         (map t_id (conflictingTasks s (t_milestoneId task') userId newDate (Some taskId)))), s)
        else (\<forall>ids. fst (patchTask rt s caller taskId patch) \<noteq> Inl (taskDateConflict ids))
           \<and> ((getProp patch ''estimatedHours'' = None
                  \<or> (\<exists>h'. validateEstimatedHours (getProp patch ''estimatedHours'') = Inr h'))
               \<and> (getProp patch ''done'' = None \<or> (\<exists>b. getProp patch ''done'' = Some (JBool b)))
               \<longrightarrow> (\<exists>updated. fst (patchTask rt s caller taskId patch) = Inr updated
                       \<and> t_id updated = taskId \<and> t_date updated = newDate))"
    by blast
qed

theorem C4_task_date_conflict_witness:
  "authenticated (Some ''u1'') = Inr ''u1''
   \<and> conflictingTasks storeB ''m1'' ''u1'' ''2025-11-10'' None = [taskB ''t1'' ''2025-11-10'']
   \<and> postTask calendarRuntime storeB (Some ''u1'') ''m1'' newTaskBody
       = (Inl (taskDateConflict [''t1'']), storeB)
   \<and> conflictingTasks storeB ''m2'' ''u1'' ''2025-11-10'' None = []
   \<and> (\<exists>task. postTask calendarRuntime storeB (Some ''u1'') ''m2'' newTaskBody
                 = (Inr task, storeB\<lparr> tasks := tasks storeB @ [task], nextDoc := Suc (nextDoc storeB) \<rparr>)
             \<and> t_date task = ''2025-11-10'' \<and> t_milestoneId task = ''m2'')
   \<and> conflictingTasks storeB ''m1'' ''u1'' ''2025-11-10'' (Some ''t2'') = [taskB ''t1'' ''2025-11-10'']
   \<and> patchTask calendarRuntime storeB (Some ''u1'') ''t2'' moveBody
       = (Inl (taskDateConflict [''t1'']), storeB)
   \<and> conflictingTasks storeB ''m1'' ''u1'' ''2025-11-10'' (Some ''t1'') = []
   \<and> (\<exists>updated. fst (patchTask calendarRuntime storeB (Some ''u1'') ''t1'' moveBody) = Inr updated
                 \<and> t_id updated = ''t1'' \<and> t_date updated = ''2025-11-10'')"
proof -
  have auth: "authenticated (Some ''u1'') = Inr ''u1''" by code_simp
  have own1: "assertOwnedMilestone storeB ''m1'' ''u1'' = Inr (milestoneB ''m1'')" by code_simp
  have own2: "assertOwnedMilestone storeB ''m2'' ''u1'' = Inr (milestoneB ''m2'')" by code_simp
  have body: "nonBlankString (getProp newTaskBody ''title'')"
    "getProp newTaskBody ''description'' = None"
    "validateIsoDate calendarRuntime (getProp newTaskBody ''date'') = Inr ''2025-11-10''"
    "validateEstimatedHours (getProp newTaskBody ''estimatedHours'') = Inr 2"
    by code_simp+
  have c1: "conflictingTasks storeB ''m1'' ''u1'' ''2025-11-10'' None = [taskB ''t1'' ''2025-11-10'']"
    by code_simp
  have c2: "conflictingTasks storeB ''m2'' ''u1'' ''2025-11-10'' None = []" by code_simp
  have ownT1: "assertOwnedTask storeB ''t1'' ''u1'' = Inr (taskB ''t1'' ''2025-11-10'', milestoneB ''m1'')"
    by code_simp
  have ownT2: "assertOwnedTask storeB ''t2'' ''u1'' = Inr (taskB ''t2'' ''2025-11-12'', milestoneB ''m1'')"
    by code_simp
  have move: "getProp moveBody ''title'' = None" "getProp moveBody ''description'' = None"
    "getProp moveBody ''date'' \<noteq> None"
    "validateIsoDate calendarRuntime (getProp moveBody ''date'') = Inr ''2025-11-10''"
    "getProp moveBody ''estimatedHours'' = None" "getProp moveBody ''done'' = None"
    by code_simp+
  have ms: "t_milestoneId (taskB ''t1'' ''2025-11-10'') = ''m1''"
    "t_milestoneId (taskB ''t2'' ''2025-11-12'') = ''m1''" "t_id (taskB ''t1'' ''2025-11-10'') = ''t1''"
    by (simp_all add: taskB_def)
  have c3: "conflictingTasks storeB ''m1'' ''u1'' ''2025-11-10'' (Some ''t2'') = [taskB ''t1'' ''2025-11-10'']"
    by code_simp
  have c4: "conflictingTasks storeB ''m1'' ''u1'' ''2025-11-10'' (Some ''t1'') = []" by code_simp
  note p1 = C4_task_date_conflict [OF auth, THEN conjunct1, rule_format,
              of storeB "''m1''" "milestoneB ''m1''" newTaskBody calendarRuntime "''2025-11-10''" 2]
  note p2 = C4_task_date_conflict [OF auth, THEN conjunct1, rule_format,
              of storeB "''m2''" "milestoneB ''m2''" newTaskBody calendarRuntime "''2025-11-10''" 2]
  note q1 = C4_task_date_conflict [OF auth, THEN conjunct2, rule_format,
              of storeB "''t2''" "taskB ''t2'' ''2025-11-12''" "milestoneB ''m1''" moveBody
                 calendarRuntime "''2025-11-10''"]
  note q2 = C4_task_date_conflict [OF auth, THEN conjunct2, rule_format,
              of storeB "''t1''" "taskB ''t1'' ''2025-11-10''" "milestoneB ''m1''" moveBody
                 calendarRuntime "''2025-11-10''"]
  from p1 own1 body c1 have r1: "postTask calendarRuntime storeB (Some ''u1'') ''m1'' newTaskBody
       = (Inl (taskDateConflict [''t1'']), storeB)" by (simp add: ms)
  from p2 own2 body c2 have r2: "\<exists>task. postTask calendarRuntime storeB (Some ''u1'') ''m2'' newTaskBody
                 = (Inr task, storeB\<lparr> tasks := tasks storeB @ [task], nextDoc := Suc (nextDoc storeB) \<rparr>)
             \<and> t_date task = ''2025-11-10'' \<and> t_milestoneId task = ''m2''" by auto
  from q1 ownT2 move c3 have r3: "patchTask calendarRuntime storeB (Some ''u1'') ''t2'' moveBody
       = (Inl (taskDateConflict [''t1'']), storeB)" by (simp add: ms)
  from q2 ownT1 move c4 have r4: "\<exists>updated. fst (patchTask calendarRuntime storeB (Some ''u1'') ''t1'' moveBody) = Inr updated
                 \<and> t_id updated = ''t1'' \<and> t_date updated = ''2025-11-10''" by (simp add: ms)
  from auth c1 r1 c2 r2 c3 r3 c4 r4 show ?thesis by blast
qed

subsection \<open>The session after finalization\<close>



subsection \<open>The iteration counter\<close>

text \<open>
  C6. After a successful exchange the persisted session's iteration, which is also the one
  answered to the client, is the engine's \<open>state.iteration\<close> when the engine supplies one,
  and the session's prior iteration plus 1 otherwise.
\<close>

theorem C6_iteration_advances:
  assumes ok: "fst (postSessionMessage rt s caller body) = Inr res"
      and req: "messageRequest caller body = Inr (userId, sessionId, text)"
      and ses: "findSessionById s sessionId = Some session"
      and usr: "findUserById s userId = Some usr"
      and ans: "invokeAgentService rt
                  (buildAgentInvocationPayload rt userId sessionId text
                     (previewForContext s session body)
                     (availableHoursLeft (buildUserContext rt s usr))
                     (upcomingTasks (buildUserContext rt s usr))) = Inr agentResponse"
  shows "\<exists>x. findSessionById (snd (postSessionMessage rt s caller body)) sessionId = Some x
             \<and> res_iteration res = s_iteration x
             \<and> (case state agentResponse of
                   None \<Rightarrow> s_iteration x = s_iteration session + 1
                 | Some st \<Rightarrow>
                     (case as_iteration st of
                        None \<Rightarrow> s_iteration x = s_iteration session + 1
                      | Some supplied \<Rightarrow> s_iteration x = supplied))"
proof -
  from successful_exchange [OF ok req ses usr ans] obtain outcome upd where
    "findSessionById (snd (postSessionMessage rt s caller body)) sessionId = Some upd"
    "s_iteration upd = us_iteration (sessionUpdates session agentResponse outcome)"
    "res_iteration res = s_iteration upd"
    by blast
  then show ?thesis
    by (auto simp: sessionUpdates_def split: option.splits)
qed

theorem C6_iteration_advances_witness:
  "fst (postSessionMessage (demoRuntime (Inr plainAnswer)) demoStore (Some ''u1'') demoBody)
     = Inr (projr (fst (postSessionMessage (demoRuntime (Inr plainAnswer)) demoStore (Some ''u1'') demoBody)))
   \<and> s_iteration demoSession = 2
   \<and> state plainAnswer = None
   \<and> (\<exists>x. findSessionById (snd (postSessionMessage (demoRuntime (Inr plainAnswer)) demoStore (Some ''u1'') demoBody)) ''sess1'' = Some x
          \<and> s_iteration x = 3
          \<and> res_iteration (projr (fst (postSessionMessage (demoRuntime (Inr plainAnswer)) demoStore (Some ''u1'') demoBody))) = 3)
   \<and> fst (postSessionMessage (demoRuntime (Inr steeredAnswer)) demoStore (Some ''u1'') demoBody)
     = Inr (projr (fst (postSessionMessage (demoRuntime (Inr steeredAnswer)) demoStore (Some ''u1'') demoBody)))
   \<and> map_option as_iteration (state steeredAnswer) = Some (Some 7)
   \<and> (\<exists>x. findSessionById (snd (postSessionMessage (demoRuntime (Inr steeredAnswer)) demoStore (Some ''u1'') demoBody)) ''sess1'' = Some x
          \<and> s_iteration x = 7
          \<and> res_iteration (projr (fst (postSessionMessage (demoRuntime (Inr steeredAnswer)) demoStore (Some ''u1'') demoBody))) = 7)"
proof -
  let ?text = "''Looks good, finalize it.''"
  have req: "messageRequest (Some ''u1'') demoBody = Inr (''u1'', ''sess1'', ?text)"
    by code_simp
  have ses: "findSessionById demoStore ''sess1'' = Some demoSession" by code_simp
  have usr: "findUserById demoStore ''u1'' = Some demoUser" by code_simp
  have it: "s_iteration demoSession = 2" by (simp add: demoSession_def)
  let ?rtP = "demoRuntime (Inr plainAnswer)"
  let ?runP = "postSessionMessage ?rtP demoStore (Some ''u1'') demoBody"
  have okP: "fst ?runP = Inr (projr (fst ?runP))" by code_simp
  have ansP: "invokeAgentService ?rtP
               (buildAgentInvocationPayload ?rtP ''u1'' ''sess1'' ?text
                  (previewForContext demoStore demoSession demoBody)
                  (availableHoursLeft (buildUserContext ?rtP demoStore demoUser))
                  (upcomingTasks (buildUserContext ?rtP demoStore demoUser))) = Inr plainAnswer"
    by (simp add: demoRuntime_def)
  have stP: "state plainAnswer = None" by (simp add: plainAnswer_def)
  let ?rtS = "demoRuntime (Inr steeredAnswer)"
  let ?runS = "postSessionMessage ?rtS demoStore (Some ''u1'') demoBody"
  have okS: "fst ?runS = Inr (projr (fst ?runS))" by code_simp
  have ansS: "invokeAgentService ?rtS
               (buildAgentInvocationPayload ?rtS ''u1'' ''sess1'' ?text
                  (previewForContext demoStore demoSession demoBody)
                  (availableHoursLeft (buildUserContext ?rtS demoStore demoUser))
                  (upcomingTasks (buildUserContext ?rtS demoStore demoUser))) = Inr steeredAnswer"
    by (simp add: demoRuntime_def)
  have stS: "state steeredAnswer = Some \<lparr> as_state = Some ''plan_generated'', as_iteration = Some 7,
                      as_sessionActive = None, as_goalPreviewId = None \<rparr>"
    by (simp add: steeredAnswer_def)
  from C6_iteration_advances [OF okP req ses usr ansP] C6_iteration_advances [OF okS req ses usr ansS]
       okP okS it stP stS
  show ?thesis by auto
qed

subsection \<open>The transcript and the engine\<close>

text \<open>
  C7. Once a message request has passed the checks on the body, the session and the user,
  the first thing the handler does to the outside world is to append the user's message to
  the transcript: every call to the reasoning engine that the request makes (bootstrap or
  run) is logged after it, and the entry is in the transcript whatever the outcome, so also
  when an engine call fails.
\<close>

theorem C7_user_message_first:
  assumes req: "messageRequest caller body = Inr (userId, sessionId, text)"
      and auth: "authorizeSession s userId sessionId = Inr session"
      and usr: "findUserById s userId = Some usr"
  shows "\<exists>laterEvents laterMessages.
           trace (snd (postSessionMessage rt s caller body))
             = trace s @ ChatAppended user text # laterEvents
         \<and> chat (snd (postSessionMessage rt s caller body))
             = chat s @ \<lparr> c_sessionId = sessionId, c_chatId = s_chatId session, c_sender = user,
                          c_message = text, c_createdAt = now rt \<rparr> # laterMessages"
proof -
  from authorizeSession_Inr [OF auth] have sid: "s_id session = sessionId" by simp
  let ?ctx = "buildUserContext rt s usr"
  let ?s1 = "appendChatMessage rt s (s_chatId session) (s_id session) user text"
  have s1: "trace ?s1 = trace s @ [ChatAppended user text]"
           "chat ?s1 = chat s @ [\<lparr> c_sessionId = sessionId, c_chatId = s_chatId session, c_sender = user,
                          c_message = text, c_createdAt = now rt \<rparr>]"
    by (simp_all add: appendChatMessage_def sid)
  obtain re s3 where eng: "callEngine rt ?s1 userId session text (previewForContext s session body) ?ctx = (re, s3)"
    by (cases "callEngine rt ?s1 userId session text (previewForContext s session body) ?ctx")
  from callEngine_transcript [OF eng] obtain evs where s3: "chat s3 = chat ?s1" "trace s3 = trace ?s1 @ evs"
    by blast
  show ?thesis
  proof (cases re)
    case (Inl e)
    with req auth usr eng have "snd (postSessionMessage rt s caller body) = s3"
      by (simp add: postSessionMessage_def Let_def)
    with s1 s3 show ?thesis by simp
  next
    case (Inr resp)
    obtain rr s' where rec: "reconcile rt s3 usr session resp ?ctx = (rr, s')"
      by (cases "reconcile rt s3 usr session resp ?ctx")
    with req auth usr eng Inr have "snd (postSessionMessage rt s caller body) = s'"
      by (simp add: postSessionMessage_def Let_def)
    moreover from reconcile_transcript [OF rec] obtain msgs evs' where
      "chat s' = chat s3 @ msgs" "trace s' = trace s3 @ evs'" by blast
    ultimately show ?thesis using s1 s3 by simp
  qed
qed

theorem C7_user_message_first_witness:
  "messageRequest (Some ''u1'') demoBody = Inr (''u1'', ''sess1'', ''Looks good, finalize it.'')
   \<and> authorizeSession demoStore ''u1'' ''sess1'' = Inr demoSession
   \<and> findUserById demoStore ''u1'' = Some demoUser
   \<and> fst (postSessionMessage failingRuntime demoStore (Some ''u1'') demoBody)
       = Inl (ApiError 503 [Lit ''Agent service unavailable. Please try again later.''] None)
   \<and> (\<exists>laterEvents laterMessages.
           trace (snd (postSessionMessage failingRuntime demoStore (Some ''u1'') demoBody))
             = trace demoStore @ ChatAppended user ''Looks good, finalize it.'' # laterEvents
         \<and> chat (snd (postSessionMessage failingRuntime demoStore (Some ''u1'') demoBody))
             = chat demoStore @ \<lparr> c_sessionId = ''sess1'', c_chatId = s_chatId demoSession, c_sender = user,
                          c_message = ''Looks good, finalize it.'', c_createdAt = now failingRuntime \<rparr> # laterMessages)"
proof -
  have req: "messageRequest (Some ''u1'') demoBody = Inr (''u1'', ''sess1'', ''Looks good, finalize it.'')"
    by code_simp
  have auth: "authorizeSession demoStore ''u1'' ''sess1'' = Inr demoSession" by code_simp
  have usr: "findUserById demoStore ''u1'' = Some demoUser" by code_simp
  have fails: "fst (postSessionMessage failingRuntime demoStore (Some ''u1'') demoBody)
       = Inl (ApiError 503 [Lit ''Agent service unavailable. Please try again later.''] None)"
    by code_simp
  from C7_user_message_first [OF req auth usr, of failingRuntime] req auth usr fails
  show ?thesis by blast
qed

subsection \<open>The context snapshot\<close>



subsection \<open>Defaults of finalization\<close>

text \<open>
  C9. Finalization computes the defaults as stated, but commits no goal that could carry
  them. For the plan with a blank title, an unusable priority and color, an overflowing
  \<open>minHoursPerWeek\<close> and tasks of 2.5, -3, \<open>'4'\<close> and infinitely many hours, the weekly hours
  come out as 2.5, and the object handed to \<open>createGoal\<close> has the title \<open>Untitled Goal\<close>,
  priority 0, no color, and the hours under \<open>minHoursPerWeek\<close> with no \<open>hoursPerWeek\<close>. For a
  user with room for the plan the write is refused and the store is as it was; for the user
  of Scenario A the plan is rejected, and the entry for the pending goal shows the default
  title and the summed hours. No finalization whatever returns a committed goal or
  changes the store.
\<close>

theorem C9_finalize_defaults_not_committed:
  "finalizePlanHours (finalizeGoalPlan roughPayload) (arrayOrEmpty (getProp roughPayload ''milestones''))
     = Inr (Finite (5 / 2))
   \<and> finalizeGoalInput demoUser (finalizeGoalPlan roughPayload) (Finite (5 / 2))
     = \<lparr> ci_userId = ''u1'', ci_title = ''Untitled Goal'', ci_description = None,
         ci_hoursPerWeek = None, ci_minHoursPerWeek = Some (Finite (5 / 2)),
         ci_priority = 0, ci_color = None \<rparr>
   \<and> finalizeGoalPlanFromAgentPayload failingRuntime demoStore demoUser roughPayload
     = (Inl FirestoreError, demoStore)
   \<and> finalizeGoalPlanFromAgentPayload failingRuntime storeA demoUser roughPayload
     = (Inl (ApiError 409 (insufficientHoursWithNewGoal 20 (Finite (41 / 2)))
               (Some (CapacityDetails 20 (Finite (41 / 2))
                        [\<lparr> goalId = ''g1'', gs_title = ''Portfolio'', weeklyHours = None \<rparr>,
                         \<lparr> goalId = ''pending'', gs_title = ''Untitled Goal'',
                           weeklyHours = Some (Finite (5 / 2)) \<rparr>]))),
        storeA)
   \<and> (\<forall>rt s usr payload.
          isl (fst (finalizeGoalPlanFromAgentPayload rt s usr payload))
          \<and> snd (finalizeGoalPlanFromAgentPayload rt s usr payload) = s)"
proof -
  have a: "finalizePlanHours (finalizeGoalPlan roughPayload) (arrayOrEmpty (getProp roughPayload ''milestones''))
     = Inr (Finite (5 / 2))"
    by code_simp
  have b: "finalizeGoalInput demoUser (finalizeGoalPlan roughPayload) (Finite (5 / 2))
     = \<lparr> ci_userId = ''u1'', ci_title = ''Untitled Goal'', ci_description = None,
         ci_hoursPerWeek = None, ci_minHoursPerWeek = Some (Finite (5 / 2)),
         ci_priority = 0, ci_color = None \<rparr>"
    by code_simp
  have c: "finalizeGoalPlanFromAgentPayload failingRuntime demoStore demoUser roughPayload
     = (Inl FirestoreError, demoStore)"
    by code_simp
  have d: "finalizeGoalPlanFromAgentPayload failingRuntime storeA demoUser roughPayload
     = (Inl (ApiError 409 (insufficientHoursWithNewGoal 20 (Finite (41 / 2)))
               (Some (CapacityDetails 20 (Finite (41 / 2))
                        [\<lparr> goalId = ''g1'', gs_title = ''Portfolio'', weeklyHours = None \<rparr>,
                         \<lparr> goalId = ''pending'', gs_title = ''Untitled Goal'',
                           weeklyHours = Some (Finite (5 / 2)) \<rparr>]))),
        storeA)"
    by code_simp
  have e: "isl (fst (finalizeGoalPlanFromAgentPayload rt s usr payload))
           \<and> snd (finalizeGoalPlanFromAgentPayload rt s usr payload) = s" for rt s usr payload
    using finalize_refused [of rt s usr payload] by auto
  from a b c d e show ?thesis by simp
qed

subsection \<open>The user id in the message body\<close>

text \<open>
  C10. In a message request whose \<open>sessionId\<close> and \<open>message\<close> are non-blank strings, a
  \<open>userId\<close> field of the body that is not the caller's id is rejected with 401 and the
  store untouched, before any session is looked up. When the field is absent or is the
  caller's id, the request passes the check and is processed exactly as the same body
  without the field.
\<close>

theorem C10_body_user_id:
  assumes auth: "authenticated caller = Inr userId"
      and sid: "stringOf (getProp body ''sessionId'') = Some sessionId" "length (trim sessionId) > 0"
      and msg: "stringOf (getProp body ''message'') = Some text" "length (trim text) > 0"
  shows "(\<forall>v. getProp body ''userId'' = Some v \<and> v \<noteq> JStr userId \<longrightarrow>
            postSessionMessage rt s caller body = (Inl (ApiError 401 [Lit ''Unauthorized.''] None), s))
       \<and> (getProp body ''userId'' = None \<or> getProp body ''userId'' = Some (JStr userId) \<longrightarrow>
            messageRequest caller body = Inr (userId, sessionId, text)
          \<and> postSessionMessage rt s caller body
              = postSessionMessage rt s caller (withoutField ''userId'' body))"
proof (intro conjI allI impI)
  fix v assume "getProp body ''userId'' = Some v \<and> v \<noteq> JStr userId"
  with auth sid msg show "postSessionMessage rt s caller body = (Inl (ApiError 401 [Lit ''Unauthorized.''] None), s)"
    by (simp add: postSessionMessage_def messageRequest_def)
next
  assume u: "getProp body ''userId'' = None \<or> getProp body ''userId'' = Some (JStr userId)"
  with auth sid msg show req: "messageRequest caller body = Inr (userId, sessionId, text)"
    by (auto simp: messageRequest_def)
  from auth sid msg have req': "messageRequest caller (withoutField ''userId'' body) = Inr (userId, sessionId, text)"
    by (simp add: messageRequest_def getProp_withoutField)
  have "previewForContext s session (withoutField ''userId'' body) = previewForContext s session body" for session
    by (simp add: previewForContext_def getProp_withoutField)
  with req req' show "postSessionMessage rt s caller body
              = postSessionMessage rt s caller (withoutField ''userId'' body)"
    by (simp add: postSessionMessage_def Let_def cong: sum.case_cong option.case_cong)
qed

theorem C10_body_user_id_witness:
  "authenticated (Some ''u1'') = Inr ''u1''
   \<and> getProp (bodyWithUserId (JStr ''u2'')) ''userId'' = Some (JStr ''u2'') \<and> JStr ''u2'' \<noteq> JStr ''u1''
   \<and> postSessionMessage failingRuntime demoStore (Some ''u1'') (bodyWithUserId (JStr ''u2''))
       = (Inl (ApiError 401 [Lit ''Unauthorized.''] None), demoStore)
   \<and> getProp (bodyWithUserId JNull) ''userId'' = Some JNull
   \<and> postSessionMessage failingRuntime demoStore (Some ''u1'') (bodyWithUserId JNull)
       = (Inl (ApiError 401 [Lit ''Unauthorized.''] None), demoStore)
   \<and> getProp (bodyWithUserId (JStr ''u1'')) ''userId'' = Some (JStr ''u1'')
   \<and> messageRequest (Some ''u1'') (bodyWithUserId (JStr ''u1''))
       = Inr (''u1'', ''sess1'', ''Looks good, finalize it.'')
   \<and> postSessionMessage failingRuntime demoStore (Some ''u1'') (bodyWithUserId (JStr ''u1''))
       = postSessionMessage failingRuntime demoStore (Some ''u1'') (withoutField ''userId'' (bodyWithUserId (JStr ''u1'')))
   \<and> getProp demoBody ''userId'' = None
   \<and> messageRequest (Some ''u1'') demoBody = Inr (''u1'', ''sess1'', ''Looks good, finalize it.'')"
proof -
  let ?text = "''Looks good, finalize it.''"
  have auth: "authenticated (Some ''u1'') = Inr ''u1''" by code_simp
  have sid: "stringOf (getProp (bodyWithUserId v) ''sessionId'') = Some ''sess1''"
            "length (trim ''sess1'') > 0" for v
    by (simp_all add: bodyWithUserId_def trim_def isWhitespace_def)
  have msg: "stringOf (getProp (bodyWithUserId v) ''message'') = Some ?text"
            "length (trim ?text) > 0" for v
    by (simp_all add: bodyWithUserId_def trim_def isWhitespace_def)
  have sid0: "stringOf (getProp demoBody ''sessionId'') = Some ''sess1''"
    and msg0: "stringOf (getProp demoBody ''message'') = Some ?text"
    by (simp_all add: demoBody_def)
  have u: "getProp (bodyWithUserId v) ''userId'' = Some v" for v
    by (simp add: bodyWithUserId_def)
  have u0: "getProp demoBody ''userId'' = None" by (simp add: demoBody_def)
  have ne: "JStr ''u2'' \<noteq> JStr ''u1''" "JNull \<noteq> JStr ''u1''" by simp_all
  from C10_body_user_id [OF auth sid msg, of "JStr ''u2''" failingRuntime demoStore]
       C10_body_user_id [OF auth sid msg, of JNull failingRuntime demoStore]
       C10_body_user_id [OF auth sid msg, of "JStr ''u1''" failingRuntime demoStore]
       C10_body_user_id [OF auth sid0 sid(2) msg0 msg(2), of failingRuntime demoStore]
       auth u u0 ne
  show ?thesis by auto
qed

end
